theory Spec2Isabelle
  imports Complex_Main "HOL-Library.Word"
begin

section \<open>Values shared by config.go and front.go\<close>

type_synonym byte = "8 word"
type_synonym bytes = "byte list"

text \<open>
  A Go \<open>error\<close> value. \<open>ErrRecordNotFound\<close> is \<open>gorm.ErrRecordNotFound\<close>,
  \<open>UniqueConstraintFailed\<close> the storage engine's uniqueness violation, \<open>ErrNotExist\<close> and
  \<open>ErrPermission\<close> are the \<open>os\<close> package's file errors, and \<open>Failure m\<close> is any other
  error, with message \<open>m\<close>.
\<close>

datatype error =
    ErrRecordNotFound
  | UniqueConstraintFailed
  | ErrNotExist
  | ErrPermission
  | Failure string

fun err_Error :: "error \<Rightarrow> string" where
  "err_Error ErrRecordNotFound = ''record not found''"
| "err_Error UniqueConstraintFailed = ''UNIQUE constraint failed''"
| "err_Error ErrNotExist = ''file does not exist''"
| "err_Error ErrPermission = ''permission denied''"
| "err_Error (Failure m) = m"

section \<open>config.go: the configuration\<close>

record rateLimitConfig =
  rl_Enable :: bool
  rl_RequestsPerSecond :: real

record bodySizeLimitConfig =
  bs_Enable :: bool
  bs_SizeLimit :: string

record FallbackAPIServer =
  fb_Nickname :: string
  fb_SessionURL :: string
  fb_AccountURL :: string
  fb_SkinDomain :: string

record anonymousLoginConfig =
  al_Allow :: bool
  al_UsernameRegex :: string
  al_Password :: string

record registrationNewPlayerConfig =
  rn_Allow :: bool
  rn_AllowChoosingUUID :: bool

record registrationExistingPlayerConfig =
  re_Allow :: bool
  re_Nickname :: string
  re_SessionURL :: string
  re_AccountURL :: string
  re_SetSkinURL :: string
  re_RequireSkinVerification :: bool

record Config =
  InstanceName :: string
  StateDirectory :: string
  DataDirectory :: string
  ApplicationOwner :: string
  Domain :: string
  BaseURL :: string
  ListenAddress :: string
  RateLimit :: rateLimitConfig
  BodySize :: bodySizeLimitConfig
  SignPublicKeys :: bool
  DisableTokenExpiry :: bool
  LogRequests :: bool
  HideListenAddress :: bool
  DefaultPreferredLanguage :: string
  SkinSizeLimit :: int
  AllowChangingPlayerName :: bool
  MinPasswordLength :: int
  SkinForwarding :: bool
  FallbackAPIServers :: "FallbackAPIServer list"
  AnonymousLogin :: anonymousLoginConfig
  RegistrationNewPlayer :: registrationNewPlayerConfig
  RegistrationExistingPlayer :: registrationExistingPlayerConfig

definition defaultRateLimitConfig :: rateLimitConfig where
  "defaultRateLimitConfig = \<lparr> rl_Enable = True, rl_RequestsPerSecond = 10 \<rparr>"

text \<open>Fields that the Go literal leaves out have Go's zero value.\<close>

definition DefaultConfig :: Config where
  "DefaultConfig = \<lparr>
     InstanceName = ''Drasl'',
     StateDirectory = ''/var/lib/drasl'',
     DataDirectory = ''/usr/share/drasl'',
     ApplicationOwner = ''Unmojang'',
     Domain = ''drasl.example.com'',
     BaseURL = ''https://drasl.example.com'',
     ListenAddress = ''0.0.0.0:9090'',
     RateLimit = defaultRateLimitConfig,
     BodySize = \<lparr> bs_Enable = False, bs_SizeLimit = '''' \<rparr>,
     SignPublicKeys = False,
     DisableTokenExpiry = False,
     LogRequests = True,
     HideListenAddress = False,
     DefaultPreferredLanguage = ''en'',
     SkinSizeLimit = 128,
     AllowChangingPlayerName = True,
     MinPasswordLength = 1,
     SkinForwarding = True,
     FallbackAPIServers =
       [\<lparr> fb_Nickname = ''Mojang'',
          fb_SessionURL = ''https://sessionserver.mojang.com'',
          fb_AccountURL = ''https://api.mojang.com'',
          fb_SkinDomain = '''' \<rparr>],
     AnonymousLogin =
       \<lparr> al_Allow = False, al_UsernameRegex = '''', al_Password = '''' \<rparr>,
     RegistrationNewPlayer =
       \<lparr> rn_Allow = True, rn_AllowChoosingUUID = False \<rparr>,
     RegistrationExistingPlayer =
       \<lparr> re_Allow = True,
         re_Nickname = ''Mojang'',
         re_SessionURL = ''https://sessionserver.mojang.com'',
         re_AccountURL = ''https://api.mojang.com'',
         re_SetSkinURL = ''https://www.minecraft.net/msaprofile/mygames/editskin'',
         re_RequireSkinVerification = True \<rparr>
   \<rparr>"

section \<open>config.go: the signing key\<close>

text \<open>
  The shape of \<open>rsa.PrivateKey\<close>: modulus, public exponent, private exponent and prime
  factors. \<open>x509.ParsePKCS8PrivateKey\<close> returns a key of any algorithm; the code asserts
  that it is an RSA key, and the assertion panics on any other.
\<close>

record rsa_PrivateKey =
  rsa_N :: nat
  rsa_E :: nat
  rsa_D :: nat
  rsa_Primes :: "nat list"

datatype pkcs8_key = RSAKey rsa_PrivateKey | OtherKey

text \<open>
  The library functions that config.go calls on keys (\<open>crypto/x509\<close> and \<open>blake3\<close>) are
  parameters of the model.
\<close>

record crypto =
  MarshalPKCS8PrivateKey :: "rsa_PrivateKey \<Rightarrow> error + bytes"
  ParsePKCS8PrivateKey :: "bytes \<Rightarrow> error + pkcs8_key"
  blake3_Sum512 :: "bytes \<Rightarrow> bytes"

text \<open>
  \<open>Check(err)\<close> ends the process when \<open>err\<close> is not nil. A start-up function therefore
  either is fatal, panics, or returns.
\<close>

datatype 'a outcome = Fatal error | Panic | Return 'a

text \<open>
  The files the process sees: a path has no file, or a file with its contents and whether
  the process may read and write it.
\<close>

record os_file =
  content :: bytes
  readable :: bool
  writable :: bool

type_synonym filesystem = "string \<rightharpoonup> os_file"

definition os_ReadFile :: "filesystem \<Rightarrow> string \<Rightarrow> error + bytes" where
  "os_ReadFile fs p =
     (case fs p of
        None \<Rightarrow> Inl ErrNotExist
      | Some f \<Rightarrow> if readable f then Inr (content f) else Inl ErrPermission)"

text \<open>
  \<open>os.WriteFile(path, der, 0600)\<close> creates a missing file readable and writable by its
  owner, and truncates and rewrites a file that exists, whose permissions stay.
\<close>

definition os_WriteFile :: "filesystem \<Rightarrow> string \<Rightarrow> bytes \<Rightarrow> error + filesystem" where
  "os_WriteFile fs p d =
     (case fs p of
        None \<Rightarrow> Inr (fs(p \<mapsto> \<lparr> content = d, readable = True, writable = True \<rparr>))
      | Some f \<Rightarrow>
          if writable f then Inr (fs(p \<mapsto> f\<lparr> content := d \<rparr>)) else Inl ErrPermission)"

text \<open>
  \<open>path.Join\<close> and \<open>path.Clean\<close> of the standard library. \<open>Clean\<close> splits the path at its
  slashes, drops the empty elements and the \<open>.\<close> elements, lets a \<open>..\<close> element remove the
  element before it (at the root it is dropped, at the start of a relative path it stays),
  and returns \<open>.\<close> for an empty result. \<open>Join\<close> joins the non-empty elements with a slash
  and cleans the result; with no non-empty element it returns the empty string.
\<close>

fun split_on :: "char \<Rightarrow> string \<Rightarrow> string list" where
  "split_on d [] = [[]]"
| "split_on d (x # xs) =
     (if x = d then [] # split_on d xs
      else (case split_on d xs of [] \<Rightarrow> [[x]] | y # ys \<Rightarrow> (x # y) # ys))"

fun join_slash :: "string list \<Rightarrow> string" where
  "join_slash [] = []"
| "join_slash [e] = e"
| "join_slash (e # f # es) = e @ ''/'' @ join_slash (f # es)"

text \<open>One element of the path meets the elements kept so far, the last one first.\<close>

definition clean_step :: "bool \<Rightarrow> string list \<Rightarrow> string \<Rightarrow> string list" where
  "clean_step rooted kept e =
     (if e = [] \<or> e = ''.'' then kept
      else if e = ''..'' then
        (case kept of
           [] \<Rightarrow> if rooted then [] else [e]
         | k # ks \<Rightarrow> if k = ''..'' then e # kept else ks)
      else e # kept)"

definition path_Clean :: "string \<Rightarrow> string" where
  "path_Clean p =
     (let rooted = (case p of [] \<Rightarrow> False | x # _ \<Rightarrow> x = CHR ''/'');
          kept = rev (foldl (clean_step rooted) [] (split_on CHR ''/'' p));
          out = (if rooted then ''/'' else []) @ join_slash kept
      in if out = [] then ''.'' else out)"

definition path_Join :: "string \<Rightarrow> string \<Rightarrow> string" where
  "path_Join a b =
     (case filter (\<lambda>e. e \<noteq> []) [a, b] of
        [] \<Rightarrow> []
      | e # es \<Rightarrow> path_Clean (join_slash (e # es)))"

text \<open>
  What one start of the process gets from its surroundings: whether \<open>os.MkdirAll\<close> on the
  state directory fails, and what \<open>rsa.GenerateKey(rand.Reader, 4096)\<close> returns.
\<close>

record startup =
  MkdirAll_error :: "error option"
  GenerateKey_result :: "error + rsa_PrivateKey"

definition KeyB3Sum512 :: "crypto \<Rightarrow> rsa_PrivateKey \<Rightarrow> bytes outcome" where
  "KeyB3Sum512 cr key =
     (case MarshalPKCS8PrivateKey cr key of
        Inl e \<Rightarrow> Fatal e
      | Inr der \<Rightarrow> Return (blake3_Sum512 cr der))"

definition ReadOrCreateKey ::
  "crypto \<Rightarrow> startup \<Rightarrow> Config \<Rightarrow> filesystem \<Rightarrow> rsa_PrivateKey outcome \<times> filesystem" where
  "ReadOrCreateKey cr st config fs =
     (case MkdirAll_error st of
        Some e \<Rightarrow> (Fatal e, fs)
      | None \<Rightarrow>
          let path = path_Join (StateDirectory config) ''key.pkcs8'' in
          (case os_ReadFile fs path of
             Inr der \<Rightarrow>
               (case ParsePKCS8PrivateKey cr der of
                  Inl e \<Rightarrow> (Fatal e, fs)
                | Inr (RSAKey key) \<Rightarrow> (Return key, fs)
                | Inr OtherKey \<Rightarrow> (Panic, fs))
           | Inl _ \<Rightarrow>
               (case GenerateKey_result st of
                  Inl e \<Rightarrow> (Fatal e, fs)
                | Inr key \<Rightarrow>
                    (case MarshalPKCS8PrivateKey cr key of
                       Inl e \<Rightarrow> (Fatal e, fs)
                     | Inr der \<Rightarrow>
                         (case os_WriteFile fs path der of
                            Inl e \<Rightarrow> (Fatal e, fs)
                          | Inr fs' \<Rightarrow> (Return key, fs'))))))"

text \<open>The fingerprint of the key a start returned, when it returned one.\<close>

definition fingerprint_of ::
  "crypto \<Rightarrow> rsa_PrivateKey outcome \<times> filesystem \<Rightarrow> bytes outcome" where
  "fingerprint_of cr run =
     (case fst run of
        Return key \<Rightarrow> KeyB3Sum512 cr key
      | Fatal e \<Rightarrow> Fatal e
      | Panic \<Rightarrow> Panic)"

text \<open>
  A toy instance of the key functions, for evaluating the model at concrete inputs: a key
  is encoded as the three bytes of its modulus and exponents.
\<close>

definition toy_crypto :: crypto where
  "toy_crypto = \<lparr>
     MarshalPKCS8PrivateKey =
       (\<lambda>k. Inr [of_nat (rsa_N k), of_nat (rsa_E k), of_nat (rsa_D k)]),
     ParsePKCS8PrivateKey =
       (\<lambda>d. case d of
          [a, b, c] \<Rightarrow>
            Inr (RSAKey \<lparr> rsa_N = unat a, rsa_E = unat b, rsa_D = unat c, rsa_Primes = [] \<rparr>)
        | _ \<Rightarrow> Inl (Failure ''x509: failed to parse private key'')),
     blake3_Sum512 = (\<lambda>d. rev d) \<rparr>"

definition toy_key :: rsa_PrivateKey where
  "toy_key = \<lparr> rsa_N = 33, rsa_E = 3, rsa_D = 7, rsa_Primes = [] \<rparr>"

definition other_key :: rsa_PrivateKey where
  "other_key = \<lparr> rsa_N = 35, rsa_E = 5, rsa_D = 5, rsa_Primes = [] \<rparr>"

definition first_start :: startup where
  "first_start = \<lparr> MkdirAll_error = None, GenerateKey_result = Inr toy_key \<rparr>"

definition later_start :: startup where
  "later_start = \<lparr> MkdirAll_error = None, GenerateKey_result = Inr other_key \<rparr>"


section \<open>front.go: accounts and their storage\<close>

record TokenPair =
  ClientToken :: string
  AccessToken :: string

text \<open>
  Modelled from the spec: the \<open>User\<close> type is declared outside config.go and front.go. Its
  fields are the ones front.go reads and writes, together with the server-assigned \<open>id\<close>
  of the data model. The three \<open>sql.NullString\<close> columns are options: \<open>MakeNullString(nil)\<close>
  is \<open>None\<close>, \<open>MakeNullString(&s)\<close> is \<open>Some s\<close>, and \<open>UnmakeNullString\<close> goes back.
\<close>

record User =
  ID :: nat
  UUID :: string
  Username :: string
  PasswordSalt :: bytes
  PasswordHash :: bytes
  TokenPairs :: "TokenPair list"
  PlayerName :: string
  PreferredLanguage :: string
  SkinModel :: string
  BrowserToken :: "string option"
  SkinHash :: "string option"
  CapeHash :: "string option"

text \<open>
  Modelled from the spec: the constant \<open>SkinModelClassic\<close> is declared outside the two
  files. The skin model is one of the variants classic and slim.
\<close>

definition SkinModelClassic :: string where
  "SkinModelClassic = ''classic''"

text \<open>
  Modelled from the spec: the storage collaborator behind \<open>app.DB\<close>. It keeps the account
  rows in the order of their ids, assigns a new id at creation and never reuses one, and
  enforces that \<open>username\<close>, \<open>playerName\<close> and a present \<open>sessionToken\<close> are unique. A
  violated constraint is the only failure of a write, and a missing row the only failure
  of a lookup.
\<close>

record database =
  rows :: "User list"
  nextID :: nat

definition token_clash :: "User \<Rightarrow> User \<Rightarrow> bool" where
  "token_clash u v =
     (case BrowserToken u of None \<Rightarrow> False | Some t \<Rightarrow> BrowserToken v = Some t)"

definition conflicts :: "User \<Rightarrow> User list \<Rightarrow> bool" where
  "conflicts u others =
     list_ex (\<lambda>v. Username v = Username u \<or> PlayerName v = PlayerName u \<or> token_clash u v)
       others"

definition DB_First :: "(User \<Rightarrow> bool) \<Rightarrow> database \<Rightarrow> error + User" where
  "DB_First cond db =
     (case find cond (rows db) of None \<Rightarrow> Inl ErrRecordNotFound | Some u \<Rightarrow> Inr u)"

definition DB_Create :: "User \<Rightarrow> database \<Rightarrow> error + User \<times> database" where
  "DB_Create u db =
     (if conflicts u (rows db) then Inl UniqueConstraintFailed
      else let u' = u\<lparr> ID := nextID db \<rparr>
           in Inr (u', \<lparr> rows = rows db @ [u'], nextID = Suc (nextID db) \<rparr>))"

text \<open>\<open>Save\<close> writes every field of the row that has the user's id, and inserts the row when
  there is none.\<close>

definition DB_Save :: "User \<Rightarrow> database \<Rightarrow> error + database" where
  "DB_Save u db =
     (if conflicts u (filter (\<lambda>v. ID v \<noteq> ID u) (rows db)) then Inl UniqueConstraintFailed
      else if list_ex (\<lambda>v. ID v = ID u) (rows db)
      then Inr (db\<lparr> rows := map (\<lambda>v. if ID v = ID u then u else v) (rows db) \<rparr>)
      else Inr \<lparr> rows = rows db @ [u], nextID = max (nextID db) (Suc (ID u)) \<rparr>)"

definition DB_Delete :: "User \<Rightarrow> database \<Rightarrow> database" where
  "DB_Delete u db = db\<lparr> rows := filter (\<lambda>v. ID v \<noteq> ID u) (rows db) \<rparr>"

text \<open>
  Modelled from the spec: \<open>IsErrorUniqueFailed\<close> is declared outside the two files. It
  detects the uniqueness violation in a generic error value; nil is no violation.
\<close>

definition IsErrorUniqueFailed :: "error option \<Rightarrow> bool" where
  "IsErrorUniqueFailed err = (err = Some UniqueConstraintFailed)"

section \<open>front.go: what a handler acts on\<close>

text \<open>
  The observable effects of a handler, in the order in which they happen: a cookie set on
  the response, a row created, saved or deleted (with its id), a blob written to or
  removed from the asset store (with its hash).
\<close>

datatype event =
    SetCookie string string
  | Created nat
  | Saved nat
  | Deleted nat
  | BlobWritten string
  | BlobRemoved string

record world =
  DB :: database
  Blobs :: "string \<rightharpoonup> bytes"
  Log :: "event list"

text \<open>
  What a handler returns to the framework: one of the responses it wrote, or the error
  value (possibly nil) it returned without writing a response, or a panic.
\<close>

datatype response =
    Redirect nat string
  | String nat string
  | NoContent nat
  | ReturnErr error
  | ReturnNil
  | Panicked

text \<open>
  front.go redirects to \<open>app.Config.FrontEndServer.URL\<close>. The \<open>Config\<close> of config.go
  declares no such field, so the application carries the address beside its \<open>Config\<close>.
\<close>

record App =
  Config :: Config
  FrontEndServer_URL :: string

text \<open>
  The \<open>echo.Context\<close> of one request, together with what the calls made while serving it
  return: the form values (an absent field reads as the empty string), the request's
  cookies, the uploaded files (\<open>None\<close> when \<open>FormFile\<close> fails, otherwise what \<open>Open\<close>
  gives), the result of \<open>uuid.New\<close> (which panics when its random source fails), the
  random sources read for the salt and for the token, the bodies \<open>http.Get\<close> fetches, and
  the errors of the asset store.
\<close>

record Context =
  FormValue :: "string \<Rightarrow> string"
  Cookie :: "string \<Rightarrow> string option"
  FormFile :: "string \<Rightarrow> (error + bytes) option"
  uuid_New :: "error + string"
  rand_salt :: "error + (nat \<Rightarrow> byte)"
  rand_token :: "error + (nat \<Rightarrow> byte)"
  http_Get :: "string \<Rightarrow> error + bytes"
  SetSkin_error :: "error option"
  SetCape_error :: "error option"
  DeleteSkin_error :: "error option"
  DeleteCape_error :: "error option"

text \<open>
  The functions of the repository that front.go calls and that are declared outside the
  two files; they are parameters of the model.
\<close>

record collab =
  IsValidPlayerName :: "string \<Rightarrow> bool"
  IsValidPreferredLanguage :: "string \<Rightarrow> bool"
  IsValidPassword :: "string \<Rightarrow> bool"
  IsValidSkinModel :: "string \<Rightarrow> bool"
  HashPassword :: "string \<Rightarrow> bytes \<Rightarrow> error + bytes"
  ValidateSkin :: "Config \<Rightarrow> bytes \<Rightarrow> error + bytes"
  ValidateCape :: "Config \<Rightarrow> bytes \<Rightarrow> error + bytes"
  ContentHash :: "bytes \<Rightarrow> string"

text \<open>\<open>make([]byte, n)\<close> and \<open>rand.Read(buf)\<close>, which fills the whole buffer or fails.\<close>

definition make_bytes :: "nat \<Rightarrow> bytes" where
  "make_bytes n = replicate n 0"

definition rand_Read :: "error + (nat \<Rightarrow> byte) \<Rightarrow> bytes \<Rightarrow> error + bytes" where
  "rand_Read src buf =
     (case src of Inl e \<Rightarrow> Inl e | Inr f \<Rightarrow> Inr (map f [0..<length buf]))"

definition hex_digit :: "nat \<Rightarrow> char" where
  "hex_digit n = ''0123456789abcdef'' ! (n mod 16)"

definition hex_EncodeToString :: "bytes \<Rightarrow> string" where
  "hex_EncodeToString bs =
     concat (map (\<lambda>b. [hex_digit (unat b div 16), hex_digit (unat b mod 16)]) bs)"

text \<open>
  Modelled from the spec: \<open>RandomHex\<close> is declared outside the two files. A token is
  \<open>n\<close> random bytes, hex-encoded.
\<close>

definition RandomHex :: "nat \<Rightarrow> error + (nat \<Rightarrow> byte) \<Rightarrow> error + string" where
  "RandomHex n src =
     (case rand_Read src (make_bytes n) of
        Inl e \<Rightarrow> Inl e
      | Inr bs \<Rightarrow> Inr (hex_EncodeToString bs))"

definition set_cookie :: "string \<Rightarrow> string \<Rightarrow> world \<Rightarrow> world" where
  "set_cookie name v w = w\<lparr> Log := Log w @ [SetCookie name v] \<rparr>"

definition setErrorMessage :: "string \<Rightarrow> world \<Rightarrow> world" where
  "setErrorMessage message w = set_cookie ''errorMessage'' message w"

text \<open>
  Modelled from the spec: the asset pipeline is declared outside the two files.
  \<open>SetSkin\<close> and \<open>SetCape\<close> store the validated image under its content hash, writing
  nothing when the hash is already there, and assign the hash on the in-memory record;
  \<open>DeleteSkin\<close> and \<open>DeleteCape\<close> remove the blob keyed by the hash, with no check for
  other referrers. Each takes the error its store operation meets, and changes nothing
  when there is one.
\<close>

definition store_blob :: "string \<Rightarrow> bytes \<Rightarrow> world \<Rightarrow> world" where
  "store_blob h img w =
     (case Blobs w h of
        Some _ \<Rightarrow> w
      | None \<Rightarrow> w\<lparr> Blobs := (Blobs w)(h \<mapsto> img), Log := Log w @ [BlobWritten h] \<rparr>)"

definition remove_blob :: "string \<Rightarrow> world \<Rightarrow> world" where
  "remove_blob h w = w\<lparr> Blobs := (Blobs w)(h := None), Log := Log w @ [BlobRemoved h] \<rparr>"

definition SetSkin ::
  "collab \<Rightarrow> error option \<Rightarrow> User \<Rightarrow> bytes \<Rightarrow> world \<Rightarrow> error + User \<times> world" where
  "SetSkin col err user img w =
     (case err of
        Some e \<Rightarrow> Inl e
      | None \<Rightarrow>
          let h = ContentHash col img
          in Inr (user\<lparr> SkinHash := Some h \<rparr>, store_blob h img w))"

definition SetCape ::
  "collab \<Rightarrow> error option \<Rightarrow> User \<Rightarrow> bytes \<Rightarrow> world \<Rightarrow> error + User \<times> world" where
  "SetCape col err user img w =
     (case err of
        Some e \<Rightarrow> Inl e
      | None \<Rightarrow>
          let h = ContentHash col img
          in Inr (user\<lparr> CapeHash := Some h \<rparr>, store_blob h img w))"

definition DeleteSkin :: "error option \<Rightarrow> string \<Rightarrow> world \<Rightarrow> error + world" where
  "DeleteSkin err h w = (case err of Some e \<Rightarrow> Inl e | None \<Rightarrow> Inr (remove_blob h w))"

definition DeleteCape :: "error option \<Rightarrow> string \<Rightarrow> world \<Rightarrow> error + world" where
  "DeleteCape err h w = (case err of Some e \<Rightarrow> Inl e | None \<Rightarrow> Inr (remove_blob h w))"

section \<open>front.go: the handlers\<close>

text \<open>
  \<open>withBrowserAuthentication\<close> looks the \<open>browserToken\<close> cookie up. When the lookup fails
  with an error other than \<open>ErrRecordNotFound\<close>, the source returns \<open>err\<close>, the result of
  reading the cookie, which is nil at that point.
\<close>

definition withBrowserAuthentication ::
  "App \<Rightarrow> (Context \<Rightarrow> User \<Rightarrow> world \<Rightarrow> response \<times> world) \<Rightarrow>
   Context \<Rightarrow> world \<Rightarrow> response \<times> world" where
  "withBrowserAuthentication app f c w =
     (case Cookie c ''browserToken'' of
        None \<Rightarrow> (Redirect 303 (FrontEndServer_URL app), w)
      | Some v \<Rightarrow>
          if v = '''' then (Redirect 303 (FrontEndServer_URL app), w)
          else
            (case DB_First (\<lambda>u. BrowserToken u = Some v) (DB w) of
               Inl e \<Rightarrow>
                 if e = ErrRecordNotFound
                 then (Redirect 303 (FrontEndServer_URL app), set_cookie ''browserToken'' '''' w)
                 else (ReturnNil, w)
             | Inr user \<Rightarrow> f c user w))"

text \<open>The stages of \<open>FrontUpdate\<close>: each either ends the request with a response or hands
  the in-memory user on.\<close>

definition update_password ::
  "collab \<Rightarrow> Context \<Rightarrow> User \<Rightarrow> world \<Rightarrow> (response + User) \<times> world" where
  "update_password col c user w =
     (let password = FormValue c ''password'' in
      if password \<noteq> '''' then
        let w1 = (if \<not> IsValidPassword col password
                  then setErrorMessage ''Invalid password.'' w else w)
        in (case rand_Read (rand_salt c) (make_bytes 16) of
              Inl e \<Rightarrow> (Inl (ReturnErr e), w1)
            | Inr passwordSalt \<Rightarrow>
                (case HashPassword col password passwordSalt of
                   Inl e \<Rightarrow> (Inl (ReturnErr e), w1)
                 | Inr passwordHash \<Rightarrow>
                     (Inr (user\<lparr> PasswordSalt := passwordSalt,
                                 PasswordHash := passwordHash \<rparr>), w1)))
      else (Inr user, w))"

definition update_skin ::
  "collab \<Rightarrow> App \<Rightarrow> Context \<Rightarrow> User \<Rightarrow> world \<Rightarrow> (response + User) \<times> world" where
  "update_skin col app c user w =
     (let skinURL = FormValue c ''skinUrl'' in
      case FormFile c ''skinFile'' of
        Some opened \<Rightarrow>
          (case opened of
             Inl e \<Rightarrow> (Inl (ReturnErr e), w)
           | Inr skinHandle \<Rightarrow>
               (case ValidateSkin col (Config app) skinHandle of
                  Inl e \<Rightarrow>
                    (Inl (Redirect 303 (FrontEndServer_URL app)),
                     setErrorMessage (''Error using that skin: '' @ err_Error e) w)
                | Inr validSkinHandle \<Rightarrow>
                    (case SetSkin col (SetSkin_error c) user validSkinHandle w of
                       Inl e \<Rightarrow> (Inl (ReturnErr e), w)
                     | Inr (user', w') \<Rightarrow> (Inr user', w'))))
      | None \<Rightarrow>
          if skinURL \<noteq> '''' then
            (case http_Get c skinURL of
               Inl e \<Rightarrow>
                 (Inl (Redirect 303 (FrontEndServer_URL app)),
                  setErrorMessage ''Couldn't download skin from that URL.'' w)
             | Inr body \<Rightarrow>
                 (case ValidateSkin col (Config app) body of
                    Inl e \<Rightarrow>
                      (Inl (Redirect 303 (FrontEndServer_URL app)),
                       setErrorMessage (''Error using that skin: '' @ err_Error e) w)
                  | Inr validSkinHandle \<Rightarrow>
                      (case SetSkin col (SetSkin_error c) user validSkinHandle w of
                         Inl e \<Rightarrow> (Inl ReturnNil, w)
                       | Inr (user', w') \<Rightarrow> (Inr user', w'))))
          else (Inr user, w))"

definition update_cape ::
  "collab \<Rightarrow> App \<Rightarrow> Context \<Rightarrow> User \<Rightarrow> world \<Rightarrow> (response + User) \<times> world" where
  "update_cape col app c user w =
     (let capeURL = FormValue c ''capeUrl'' in
      case FormFile c ''capeFile'' of
        Some opened \<Rightarrow>
          (case opened of
             Inl e \<Rightarrow> (Inl (ReturnErr e), w)
           | Inr capeHandle \<Rightarrow>
               (case ValidateCape col (Config app) capeHandle of
                  Inl e \<Rightarrow>
                    (Inl (Redirect 303 (FrontEndServer_URL app)),
                     setErrorMessage (''Error using that cape: '' @ err_Error e) w)
                | Inr validCapeHandle \<Rightarrow>
                    (case SetCape col (SetCape_error c) user validCapeHandle w of
                       Inl e \<Rightarrow> (Inl (ReturnErr e), w)
                     | Inr (user', w') \<Rightarrow> (Inr user', w'))))
      | None \<Rightarrow>
          if capeURL \<noteq> '''' then
            (case http_Get c capeURL of
               Inl e \<Rightarrow>
                 (Inl (Redirect 303 (FrontEndServer_URL app)),
                  setErrorMessage ''Couldn't download cape from that URL.'' w)
             | Inr body \<Rightarrow>
                 (case ValidateCape col (Config app) body of
                    Inl e \<Rightarrow>
                      (Inl (Redirect 303 (FrontEndServer_URL app)),
                       setErrorMessage (''Error using that cape: '' @ err_Error e) w)
                  | Inr validCapeHandle \<Rightarrow>
                      (case SetCape col (SetCape_error c) user validCapeHandle w of
                         Inl e \<Rightarrow> (Inl ReturnNil, w)
                       | Inr (user', w') \<Rightarrow> (Inr user', w'))))
          else (Inr user, w))"

definition update_save :: "App \<Rightarrow> User \<Rightarrow> world \<Rightarrow> response \<times> world" where
  "update_save app user w =
     (case DB_Save user (DB w) of
        Inl err \<Rightarrow>
          if IsErrorUniqueFailed (Some err)
          then (Redirect 303 (FrontEndServer_URL app),
                setErrorMessage ''That player name is taken.'' w)
          else (ReturnErr err, w)
      | Inr db' \<Rightarrow>
          (Redirect 303 (FrontEndServer_URL app),
           w\<lparr> DB := db', Log := Log w @ [Saved (ID user)] \<rparr>))"

definition update_body ::
  "collab \<Rightarrow> App \<Rightarrow> Context \<Rightarrow> User \<Rightarrow> world \<Rightarrow> response \<times> world" where
  "update_body col app c user w =
     (let playerName = FormValue c ''playerName'';
          preferredLanguage = FormValue c ''preferredLanguage'';
          skinModel = FormValue c ''skinModel''
      in
      if \<not> IsValidPlayerName col playerName
      then (Redirect 303 (FrontEndServer_URL app),
            setErrorMessage
              ''Player name must be between 1 and 16 characters (inclusive).'' w)
      else if \<not> IsValidPreferredLanguage col preferredLanguage
      then (Redirect 303 (FrontEndServer_URL app),
            setErrorMessage ''Invalid preferred language.'' w)
      else
        (case update_password col c
                (user\<lparr> PlayerName := playerName,
                        PreferredLanguage := preferredLanguage \<rparr>) w of
           (Inl r, w1) \<Rightarrow> (r, w1)
         | (Inr user1, w1) \<Rightarrow>
             if \<not> IsValidSkinModel col skinModel then (NoContent 400, w1)
             else
               (case update_skin col app c (user1\<lparr> SkinModel := skinModel \<rparr>) w1 of
                  (Inl r, w2) \<Rightarrow> (r, w2)
                | (Inr user2, w2) \<Rightarrow>
                    (case update_cape col app c user2 w2 of
                       (Inl r, w3) \<Rightarrow> (r, w3)
                     | (Inr user3, w3) \<Rightarrow> update_save app user3 w3))))"

definition FrontUpdate :: "collab \<Rightarrow> App \<Rightarrow> Context \<Rightarrow> world \<Rightarrow> response \<times> world" where
  "FrontUpdate col app = withBrowserAuthentication app (update_body col app)"

text \<open>\<open>FrontLogout\<close> and \<open>FrontLogin\<close> call \<open>app.DB.Save\<close> and drop its result.\<close>

definition save_unchecked :: "User \<Rightarrow> world \<Rightarrow> world" where
  "save_unchecked user w =
     (case DB_Save user (DB w) of
        Inl _ \<Rightarrow> w
      | Inr db' \<Rightarrow> w\<lparr> DB := db', Log := Log w @ [Saved (ID user)] \<rparr>)"

definition FrontLogout :: "App \<Rightarrow> Context \<Rightarrow> world \<Rightarrow> response \<times> world" where
  "FrontLogout app =
     withBrowserAuthentication app
       (\<lambda>c user w.
          (Redirect 303 (FrontEndServer_URL app),
           save_unchecked (user\<lparr> BrowserToken := None \<rparr>)
             (set_cookie ''browserToken'' '''' w)))"

text \<open>
  In \<open>FrontRegister\<close>, a failed \<open>Create\<close> is classified by \<open>IsErrorUniqueFailed(err)\<close>,
  where \<open>err\<close> is the variable last assigned by \<open>RandomHex\<close>, nil at that point; the error
  of the \<open>Create\<close> is \<open>result.Error\<close>.
\<close>

definition FrontRegister :: "collab \<Rightarrow> App \<Rightarrow> Context \<Rightarrow> world \<Rightarrow> response \<times> world" where
  "FrontRegister col app c w =
     (let username = FormValue c ''username'';
          password = FormValue c ''password''
      in
      if username = '''' then (String 400 ''Username cannot be blank!'', w)
      else if password = '''' then (String 400 ''Password cannot be blank!'', w)
      else
        (case uuid_New c of
           Inl _ \<Rightarrow> (Panicked, w)
         | Inr uuid \<Rightarrow>
        (case rand_Read (rand_salt c) (make_bytes 16) of
           Inl e \<Rightarrow> (ReturnErr e, w)
         | Inr passwordSalt \<Rightarrow>
        (case HashPassword col password passwordSalt of
           Inl e \<Rightarrow> (ReturnErr e, w)
         | Inr passwordHash \<Rightarrow>
        (case RandomHex 32 (rand_token c) of
           Inl e \<Rightarrow> (ReturnErr e, w)
         | Inr browserToken \<Rightarrow>
             let user = \<lparr> ID = 0,
                          UUID = uuid,
                          Username = username,
                          PasswordSalt = passwordSalt,
                          PasswordHash = passwordHash,
                          TokenPairs = [],
                          PlayerName = username,
                          PreferredLanguage = ''en'',
                          SkinModel = SkinModelClassic,
                          BrowserToken = Some browserToken,
                          SkinHash = None,
                          CapeHash = None \<rparr>
             in
             (case DB_Create user (DB w) of
                Inl result_Error \<Rightarrow>
                  if IsErrorUniqueFailed None
                  then (Redirect 303 (FrontEndServer_URL app),
                        setErrorMessage ''That username is taken.'' w)
                  else (ReturnErr result_Error, w)
              | Inr (created, db') \<Rightarrow>
                  (Redirect 303 (FrontEndServer_URL app),
                   set_cookie ''browserToken'' browserToken
                     (w\<lparr> DB := db', Log := Log w @ [Created (ID created)] \<rparr>))))))))"

definition FrontLogin :: "collab \<Rightarrow> App \<Rightarrow> Context \<Rightarrow> world \<Rightarrow> response \<times> world" where
  "FrontLogin col app c w =
     (let username = FormValue c ''username'';
          password = FormValue c ''password''
      in
      case DB_First (\<lambda>u. Username u = username) (DB w) of
        Inl e \<Rightarrow>
          if e = ErrRecordNotFound
          then (Redirect 303 (FrontEndServer_URL app), setErrorMessage ''User not found!'' w)
          else (ReturnErr e, w)
      | Inr user \<Rightarrow>
          (case HashPassword col password (PasswordSalt user) of
             Inl e \<Rightarrow> (ReturnErr e, w)
           | Inr passwordHash \<Rightarrow>
               if passwordHash \<noteq> PasswordHash user
               then (Redirect 303 (FrontEndServer_URL app),
                     setErrorMessage ''Incorrect password!'' w)
               else
                 (case RandomHex 32 (rand_token c) of
                    Inl e \<Rightarrow> (ReturnErr e, w)
                  | Inr browserToken \<Rightarrow>
                      (Redirect 303 (FrontEndServer_URL app),
                       save_unchecked (user\<lparr> BrowserToken := Some browserToken \<rparr>)
                         (set_cookie ''browserToken'' browserToken w)))))"

definition delete_body :: "App \<Rightarrow> Context \<Rightarrow> User \<Rightarrow> world \<Rightarrow> response \<times> world" where
  "delete_body app c user w =
     (let w1 = set_cookie ''browserToken'' '''' w;
          oldSkinHash = SkinHash user;
          oldCapeHash = CapeHash user;
          w2 = w1\<lparr> DB := DB_Delete user (DB w1), Log := Log w1 @ [Deleted (ID user)] \<rparr>
      in
      case (case oldSkinHash of
              None \<Rightarrow> Inr w2
            | Some h \<Rightarrow> DeleteSkin (DeleteSkin_error c) h w2) of
        Inl e \<Rightarrow> (ReturnErr e, w2)
      | Inr w3 \<Rightarrow>
          (case (case oldCapeHash of
                   None \<Rightarrow> Inr w3
                 | Some h \<Rightarrow> DeleteCape (DeleteCape_error c) h w3) of
             Inl e \<Rightarrow> (ReturnErr e, w3)
           | Inr w4 \<Rightarrow> (Redirect 303 (FrontEndServer_URL app), w4)))"

definition FrontDeleteAccount :: "App \<Rightarrow> Context \<Rightarrow> world \<Rightarrow> response \<times> world" where
  "FrontDeleteAccount app = withBrowserAuthentication app (delete_body app)"

section \<open>The uniqueness constraints as an invariant of the storage\<close>

definition logged_in :: "database \<Rightarrow> User list" where
  "logged_in db = filter (\<lambda>u. BrowserToken u \<noteq> None) (rows db)"

text \<open>Ids, usernames, player names and present session tokens are pairwise different.\<close>

definition db_unique :: "database \<Rightarrow> bool" where
  "db_unique db =
     (distinct (map ID (rows db)) \<and> distinct (map Username (rows db))
      \<and> distinct (map PlayerName (rows db)) \<and> distinct (map BrowserToken (logged_in db)))"

text \<open>Every id in use is below the next id to be assigned.\<close>

definition ids_below :: "database \<Rightarrow> bool" where
  "ids_below db = list_all (\<lambda>v. ID v < nextID db) (rows db)"

definition db_wf :: "database \<Rightarrow> bool" where
  "db_wf db = (db_unique db \<and> ids_below db)"

section \<open>Concrete inputs\<close>

text \<open>
  An instance of the collaborators for evaluating the handlers: player names of 1 to 16
  characters, two languages, passwords of at least 8 characters, the two skin models, a
  hash that appends the password's bytes to the salt, images accepted up to the
  configured size, and the hex encoding as content hash.
\<close>

definition toy_collab :: collab where
  "toy_collab = \<lparr>
     IsValidPlayerName = (\<lambda>s. 1 \<le> length s \<and> length s \<le> 16),
     IsValidPreferredLanguage = (\<lambda>s. s = ''en'' \<or> s = ''de''),
     IsValidPassword = (\<lambda>s. 8 \<le> length s),
     IsValidSkinModel = (\<lambda>s. s = ''classic'' \<or> s = ''slim''),
     HashPassword = (\<lambda>p salt. Inr (salt @ map (\<lambda>ch. of_nat (of_char ch)) p)),
     ValidateSkin =
       (\<lambda>cfg b. if int (length b) \<le> SkinSizeLimit cfg then Inr b
                else Inl (Failure ''too large'')),
     ValidateCape =
       (\<lambda>cfg b. if int (length b) \<le> SkinSizeLimit cfg then Inr b
                else Inl (Failure ''too large'')),
     ContentHash = hex_EncodeToString \<rparr>"

definition example_app :: App where
  "example_app =
     \<lparr> Config = DefaultConfig, FrontEndServer_URL = ''https://drasl.example.com'' \<rparr>"

text \<open>The same application with new-player registration switched off.\<close>

definition closed_app :: App where
  "closed_app =
     example_app\<lparr> Config := DefaultConfig\<lparr> RegistrationNewPlayer :=
       \<lparr> rn_Allow = False, rn_AllowChoosingUUID = False \<rparr> \<rparr> \<rparr>"

text \<open>The same application with German as the configured default language.\<close>

definition german_app :: App where
  "german_app =
     example_app\<lparr> Config := DefaultConfig\<lparr> DefaultPreferredLanguage := ''de'' \<rparr> \<rparr>"

definition form :: "(string \<times> string) list \<Rightarrow> string \<Rightarrow> string" where
  "form kvs k = (case map_of kvs k of None \<Rightarrow> '''' | Some v \<Rightarrow> v)"

text \<open>A request with the given form fields and cookies and no files, served while every
  call to the surroundings succeeds.\<close>

definition request :: "(string \<times> string) list \<Rightarrow> (string \<times> string) list \<Rightarrow> Context" where
  "request inputs cks = \<lparr>
     FormValue = form inputs,
     Cookie = map_of cks,
     FormFile = (\<lambda>_. None),
     uuid_New = Inr ''0f8fad5b-d9cb-469f-a165-70867728950e'',
     rand_salt = Inr (\<lambda>i. of_nat i),
     rand_token = Inr (\<lambda>i. 171),
     http_Get = (\<lambda>_. Inr [1, 2, 3]),
     SetSkin_error = None,
     SetCape_error = None,
     DeleteSkin_error = None,
     DeleteCape_error = None \<rparr>"

definition token_ab :: string where
  "token_ab = ''abababababababababababababababababababababababababababababababab''"

definition token_cd :: string where
  "token_cd = ''cdcdcdcdcdcdcdcdcdcdcdcdcdcdcdcdcdcdcdcdcdcdcdcdcdcdcdcdcdcdcdcd''"

text \<open>The account of alice, password \<open>secret1\<close>, logged in with \<open>token_cd\<close>, with a skin.\<close>

definition alice :: User where
  "alice = \<lparr>
     ID = 1,
     UUID = ''9b2e4c1a-0d3f-4c57-8a61-2f7d5e9b1c34'',
     Username = ''alice'',
     PasswordSalt = [7, 7],
     PasswordHash = [7, 7, 115, 101, 99, 114, 101, 116, 49],
     TokenPairs = [],
     PlayerName = ''alice'',
     PreferredLanguage = ''en'',
     SkinModel = ''classic'',
     BrowserToken = Some token_cd,
     SkinHash = Some ''0102'',
     CapeHash = None \<rparr>"

definition empty_world :: world where
  "empty_world = \<lparr> DB = \<lparr> rows = [], nextID = 1 \<rparr>, Blobs = Map.empty, Log = [] \<rparr>"

definition alice_world :: world where
  "alice_world =
     \<lparr> DB = \<lparr> rows = [alice], nextID = 2 \<rparr>, Blobs = [''0102'' \<mapsto> [1, 2]], Log = [] \<rparr>"

text \<open>Requests used to run the handlers.\<close>

definition register_bob :: Context where
  "register_bob = request [(''username'', ''bob''), (''password'', ''hunter22'')] []"

definition register_alice_again :: Context where
  "register_alice_again = request [(''username'', ''alice''), (''password'', ''other'')] []"

definition login_alice :: Context where
  "login_alice = request [(''username'', ''alice''), (''password'', ''secret1'')] []"

definition login_alice_wrong :: Context where
  "login_alice_wrong = request [(''username'', ''alice''), (''password'', ''wrong'')] []"

definition login_bob_wrong :: Context where
  "login_bob_wrong = request [(''username'', ''bob''), (''password'', ''wrong'')] []"

definition update_short_password :: Context where
  "update_short_password =
     request
       [(''playerName'', ''alice''), (''preferredLanguage'', ''en''),
        (''skinModel'', ''classic''), (''password'', ''short'')]
       [(''browserToken'', token_cd)]"

definition update_skin_from_url :: Context where
  "update_skin_from_url =
     (request
        [(''playerName'', ''alice''), (''preferredLanguage'', ''en''),
         (''skinModel'', ''classic''), (''skinUrl'', ''https://example.com/skin.png'')]
        [(''browserToken'', token_cd)])
     \<lparr> SetSkin_error := Some (Failure ''no space left on device'') \<rparr>"

definition update_cape_from_url :: Context where
  "update_cape_from_url =
     (request
        [(''playerName'', ''alice''), (''preferredLanguage'', ''en''),
         (''skinModel'', ''classic''), (''capeUrl'', ''https://example.com/cape.png'')]
        [(''browserToken'', token_cd)])
     \<lparr> SetCape_error := Some (Failure ''no space left on device'') \<rparr>"

definition delete_alice :: Context where
  "delete_alice = request [] [(''browserToken'', token_cd)]"

text \<open>The same requests while the asset store fails to delete a skin, and a cape.\<close>

definition delete_alice_skin_fails :: Context where
  "delete_alice_skin_fails =
     delete_alice\<lparr> DeleteSkin_error := Some (Failure ''permission denied'') \<rparr>"

definition delete_alice_cape_fails :: Context where
  "delete_alice_cape_fails =
     delete_alice\<lparr> DeleteCape_error := Some (Failure ''permission denied'') \<rparr>"

text \<open>The account of alice with a cape beside the skin.\<close>

definition caped_alice :: User where
  "caped_alice = alice\<lparr> CapeHash := Some ''0304'' \<rparr>"

definition caped_world :: world where
  "caped_world =
     \<lparr> DB = \<lparr> rows = [caped_alice], nextID = 2 \<rparr>,
       Blobs = [''0102'' \<mapsto> [1, 2], ''0304'' \<mapsto> [3, 4]], Log = [] \<rparr>"

text \<open>The account of bob, logged in with \<open>token_ab\<close>, the token that the random source of
  \<open>request\<close> produces, beside the account of alice.\<close>

definition bob :: User where
  "bob = \<lparr>
     ID = 2,
     UUID = ''3c1f8a77-52de-4b0a-9e46-7a1d0c5b2f90'',
     Username = ''bob'',
     PasswordSalt = [9],
     PasswordHash = [9, 104, 117, 110, 116, 101, 114, 50, 50],
     TokenPairs = [],
     PlayerName = ''bob'',
     PreferredLanguage = ''en'',
     SkinModel = ''classic'',
     BrowserToken = Some token_ab,
     SkinHash = None,
     CapeHash = None \<rparr>"

definition alice_bob_world :: world where
  "alice_bob_world =
     \<lparr> DB = \<lparr> rows = [alice, bob], nextID = 3 \<rparr>,
       Blobs = [''0102'' \<mapsto> [1, 2]], Log = [] \<rparr>"


section \<open>Facts about the storage and the random sources\<close>

lemma rand_Read_length: "rand_Read src buf = Inr s \<Longrightarrow> length s = length buf"
  by (cases src) (auto simp: rand_Read_def)










section \<open>Properties of the key manager\<close>

lemma path_Join_examples:
  "path_Join ''/var/lib/drasl/'' ''key.pkcs8'' = ''/var/lib/drasl/key.pkcs8''"
  "path_Join [] ''key.pkcs8'' = ''key.pkcs8''"
  "path_Join ''.'' ''key.pkcs8'' = ''key.pkcs8''"
  "path_Join ''/'' ''key.pkcs8'' = ''/key.pkcs8''"
  "path_Join ''state/../data'' ''key.pkcs8'' = ''data/key.pkcs8''"
  "path_Join ''..'' ''key.pkcs8'' = ''../key.pkcs8''"
  "path_Join ''/..'' ''key.pkcs8'' = ''/key.pkcs8''"
  "path_Join ''a//b/./'' ''key.pkcs8'' = ''a/b/key.pkcs8''"
  "path_Join [] [] = []"
  "path_Join ''a/..'' [] = ''.''"
  by (simp_all add: path_Join_def path_Clean_def clean_step_def)

lemma key_path:
  "path_Join (StateDirectory DefaultConfig) ''key.pkcs8'' = ''/var/lib/drasl/key.pkcs8''"
  by (simp add: path_Join_def path_Clean_def clean_step_def DefaultConfig_def)




text \<open>
  Claim C9: key persistence round-trip. When a first start finds no readable key file,
  generates a key and writes it, and a later start finds the persisted file, the later
  start loads the same key and leaves the file as it is, so the fingerprint is the same
  before and after the restart; it is the hash of the persisted encoding. The encoding
  and decoding functions of the library are parameters: decoding what encoding gave for
  this key gives the key back.
\<close>

theorem C9_key_roundtrip:
  assumes mk1: "MkdirAll_error st1 = None" and mk2: "MkdirAll_error st2 = None"
    and absent: "os_ReadFile fs (path_Join (StateDirectory config) ''key.pkcs8'') = Inl e"
    and first: "ReadOrCreateKey cr st1 config fs = (Return key, fs')"
    and found: "os_ReadFile fs' (path_Join (StateDirectory config) ''key.pkcs8'') = Inr der"
    and x509: "\<And>d. MarshalPKCS8PrivateKey cr key = Inr d \<Longrightarrow>
                 ParsePKCS8PrivateKey cr d = Inr (RSAKey key)"
  shows "ReadOrCreateKey cr st2 config fs' = (Return key, fs')
     \<and> fingerprint_of cr (ReadOrCreateKey cr st2 config fs')
         = fingerprint_of cr (ReadOrCreateKey cr st1 config fs)
     \<and> fingerprint_of cr (ReadOrCreateKey cr st2 config fs') = Return (blake3_Sum512 cr der)"
proof -
  let ?p = "path_Join (StateDirectory config) ''key.pkcs8''"
  from first mk1 absent obtain d where
    m: "MarshalPKCS8PrivateKey cr key = Inr d" and w: "os_WriteFile fs ?p d = Inr fs'"
    by (auto simp: ReadOrCreateKey_def Let_def split: sum.splits)
  from w have "os_ReadFile fs' ?p = Inr d \<or> (\<exists>e. os_ReadFile fs' ?p = Inl e)"
    by (auto simp: os_WriteFile_def os_ReadFile_def split: option.splits if_splits)
  with found have dd: "der = d" by auto
  have second: "ReadOrCreateKey cr st2 config fs' = (Return key, fs')"
    using mk2 found dd x509[OF m] by (simp add: ReadOrCreateKey_def)
  show ?thesis using second first m dd by (simp add: fingerprint_of_def KeyB3Sum512_def)
qed

lemma first_start_writes_readable_file:
  assumes "MkdirAll_error st = None"
    and "fs (path_Join (StateDirectory config) ''key.pkcs8'') = None"
    and "ReadOrCreateKey cr st config fs = (Return key, fs')"
  shows "\<exists>der. MarshalPKCS8PrivateKey cr key = Inr der
       \<and> os_ReadFile fs' (path_Join (StateDirectory config) ''key.pkcs8'') = Inr der"
  using assms
  by (auto simp: ReadOrCreateKey_def os_ReadFile_def os_WriteFile_def Let_def
           split: sum.splits)

text \<open>Claim C9 at a first start on an empty state directory followed by a restart.\<close>

theorem C9_key_roundtrip_witness:
  "ReadOrCreateKey toy_crypto first_start DefaultConfig Map.empty
     = (Return toy_key,
        [''/var/lib/drasl/key.pkcs8'' \<mapsto>
           \<lparr> content = [33, 3, 7], readable = True, writable = True \<rparr>])
   \<and> ReadOrCreateKey toy_crypto later_start DefaultConfig
        [''/var/lib/drasl/key.pkcs8'' \<mapsto>
           \<lparr> content = [33, 3, 7], readable = True, writable = True \<rparr>]
     = (Return toy_key,
        [''/var/lib/drasl/key.pkcs8'' \<mapsto>
           \<lparr> content = [33, 3, 7], readable = True, writable = True \<rparr>])
   \<and> fingerprint_of toy_crypto
        (ReadOrCreateKey toy_crypto later_start DefaultConfig
           [''/var/lib/drasl/key.pkcs8'' \<mapsto>
              \<lparr> content = [33, 3, 7], readable = True, writable = True \<rparr>])
     = Return [7, 3, 33]"
proof -
  let ?fs' = "[''/var/lib/drasl/key.pkcs8'' \<mapsto>
           \<lparr> content = [33, 3, 7], readable = True, writable = True \<rparr>]"
  have mk1: "MkdirAll_error first_start = None" by (simp add: first_start_def)
  have mk2: "MkdirAll_error later_start = None" by (simp add: later_start_def)
  have absent: "os_ReadFile Map.empty (path_Join (StateDirectory DefaultConfig) ''key.pkcs8'')
                  = Inl ErrNotExist"
    by (simp add: os_ReadFile_def)
  have first: "ReadOrCreateKey toy_crypto first_start DefaultConfig Map.empty
                 = (Return toy_key, ?fs')"
    by (simp add: ReadOrCreateKey_def key_path first_start_def os_ReadFile_def
                  os_WriteFile_def toy_crypto_def toy_key_def)
  have found: "os_ReadFile ?fs' (path_Join (StateDirectory DefaultConfig) ''key.pkcs8'')
                 = Inr [33, 3, 7]"
    by (simp add: os_ReadFile_def key_path)
  have x509: "ParsePKCS8PrivateKey toy_crypto d = Inr (RSAKey toy_key)"
    if "MarshalPKCS8PrivateKey toy_crypto toy_key = Inr d" for d
    using that by (auto simp: toy_crypto_def toy_key_def)
  have fp: "blake3_Sum512 toy_crypto [33, 3, 7] = [7, 3, 33]"
    by (simp add: toy_crypto_def)
  note r = C9_key_roundtrip
            [where ?st1.0 = first_start and ?st2.0 = later_start and fs = Map.empty
               and config = DefaultConfig and cr = toy_crypto and key = toy_key
               and fs' = ?fs',
             OF mk1 mk2 absent first found x509]
  have second: "ReadOrCreateKey toy_crypto later_start DefaultConfig ?fs'
                  = (Return toy_key, ?fs')"
    by (rule r[THEN conjunct1])
  have print: "fingerprint_of toy_crypto
                 (ReadOrCreateKey toy_crypto later_start DefaultConfig ?fs')
               = Return [7, 3, 33]"
    using r[THEN conjunct2, THEN conjunct2] fp by simp
  show ?thesis
    by (intro conjI) (rule first, rule second, rule print)
qed

section \<open>Session tokens\<close>







section \<open>Registration and login\<close>

lemma find_last:
  "\<forall>v\<in>set xs. \<not> P v \<Longrightarrow> P u \<Longrightarrow> find P (xs @ [u]) = Some u"
  by (induction xs) simp_all

lemma Create_result:
  assumes "DB_Create u db = Inr (u', db')"
  shows "u' = u\<lparr>ID := nextID db\<rparr> \<and> rows db' = rows db @ [u'] \<and> nextID db' = Suc (nextID db)
    \<and> \<not> conflicts u (rows db)"
  using assms by (auto simp: DB_Create_def Let_def split: if_splits)

lemma register_success:
  assumes ok: "fst (FrontRegister col app c w) = Redirect 303 url"
  shows "\<exists>uuid salt hash token created db'.
      FormValue c ''username'' \<noteq> '''' \<and> FormValue c ''password'' \<noteq> ''''
    \<and> uuid_New c = Inr uuid
    \<and> rand_Read (rand_salt c) (make_bytes 16) = Inr salt
    \<and> HashPassword col (FormValue c ''password'') salt = Inr hash
    \<and> RandomHex 32 (rand_token c) = Inr token
    \<and> DB_Create \<lparr> ID = 0, UUID = uuid, Username = FormValue c ''username'',
                    PasswordSalt = salt, PasswordHash = hash, TokenPairs = [],
                    PlayerName = FormValue c ''username'', PreferredLanguage = ''en'',
                    SkinModel = SkinModelClassic, BrowserToken = Some token,
                    SkinHash = None, CapeHash = None \<rparr> (DB w) = Inr (created, db')
    \<and> snd (FrontRegister col app c w)
        = set_cookie ''browserToken'' token
            (w\<lparr> DB := db', Log := Log w @ [Created (ID created)] \<rparr>)"
proof -
  have u: "FormValue c ''username'' \<noteq> ''''" and p: "FormValue c ''password'' \<noteq> ''''"
    using ok by (auto simp: FrontRegister_def Let_def split: if_splits)
  obtain uuid where a: "uuid_New c = Inr uuid"
    using ok u p by (cases "uuid_New c") (auto simp: FrontRegister_def Let_def)
  obtain salt where b: "rand_Read (rand_salt c) (make_bytes 16) = Inr salt"
    using ok u p a
    by (cases "rand_Read (rand_salt c) (make_bytes 16)") (auto simp: FrontRegister_def Let_def)
  obtain hash where d: "HashPassword col (FormValue c ''password'') salt = Inr hash"
    using ok u p a b
    by (cases "HashPassword col (FormValue c ''password'') salt")
       (auto simp: FrontRegister_def Let_def)
  obtain token where e: "RandomHex 32 (rand_token c) = Inr token"
    using ok u p a b d
    by (cases "RandomHex 32 (rand_token c)") (auto simp: FrontRegister_def Let_def)
  let ?user = "\<lparr> ID = 0, UUID = uuid, Username = FormValue c ''username'',
                    PasswordSalt = salt, PasswordHash = hash, TokenPairs = [],
                    PlayerName = FormValue c ''username'', PreferredLanguage = ''en'',
                    SkinModel = SkinModelClassic, BrowserToken = Some token,
                    SkinHash = None, CapeHash = None \<rparr>"
  obtain created db' where f: "DB_Create ?user (DB w) = Inr (created, db')"
    using ok u p a b d e
    by (cases "DB_Create ?user (DB w)")
       (auto simp: FrontRegister_def Let_def IsErrorUniqueFailed_def)
  have "snd (FrontRegister col app c w)
        = set_cookie ''browserToken'' token
            (w\<lparr> DB := db', Log := Log w @ [Created (ID created)] \<rparr>)"
    using u p a b d e f by (simp add: FrontRegister_def Let_def)
  then show ?thesis using u p a b d e f by blast
qed

text \<open>
  Claim C1, amended. The register flow does not consult the registration policy: its
  outcome is the same under every configuration, whatever \<open>RegistrationNewPlayer\<close> says.
  A successful \<open>FrontRegister\<close> implies only that the username and the password were not
  blank.
\<close>

theorem C1_register_ignores_policy:
  "FrontRegister col (app\<lparr> Config := cfg \<rparr>) c w = FrontRegister col app c w
   \<and> (fst (FrontRegister col app c w) = Redirect 303 (FrontEndServer_URL app) \<longrightarrow>
        FormValue c ''username'' \<noteq> '''' \<and> FormValue c ''password'' \<noteq> '''')"
proof
  show "FrontRegister col (app\<lparr> Config := cfg \<rparr>) c w = FrontRegister col app c w"
    by (simp add: FrontRegister_def Let_def split: sum.split prod.split)
  show "fst (FrontRegister col app c w) = Redirect 303 (FrontEndServer_URL app) \<longrightarrow>
        FormValue c ''username'' \<noteq> '''' \<and> FormValue c ''password'' \<noteq> ''''"
    using register_success[of col app c w "FrontEndServer_URL app"] by blast
qed

text \<open>
  Claim C7, amended. For every successful registration the created account has the
  username as its player name, the classic skin model, the preferred language \<open>en\<close>
  (the literal, which is the default of \<open>DefaultConfig\<close>, whatever the loaded configuration
  says), the uuid that the generator returned, a salt of 16 bytes read from the random
  source, the hash of the password under that salt, and the generated session token, which
  is also set as cookie and resolves to the new account at once.
\<close>

theorem C7_registered_account:
  assumes ok: "fst (FrontRegister col app c w) = Redirect 303 (FrontEndServer_URL app)"
  shows "\<exists>uuid salt hash token.
      uuid_New c = Inr uuid
    \<and> rand_Read (rand_salt c) (make_bytes 16) = Inr salt \<and> length salt = 16
    \<and> HashPassword col (FormValue c ''password'') salt = Inr hash
    \<and> RandomHex 32 (rand_token c) = Inr token
    \<and> rows (DB (snd (FrontRegister col app c w)))
        = rows (DB w) @
          [\<lparr> ID = nextID (DB w), UUID = uuid, Username = FormValue c ''username'',
             PasswordSalt = salt, PasswordHash = hash, TokenPairs = [],
             PlayerName = FormValue c ''username'', PreferredLanguage = ''en'',
             SkinModel = ''classic'', BrowserToken = Some token,
             SkinHash = None, CapeHash = None \<rparr>]
    \<and> Log (snd (FrontRegister col app c w))
        = Log w @ [Created (nextID (DB w)), SetCookie ''browserToken'' token]
    \<and> DB_First (\<lambda>u. BrowserToken u = Some token) (DB (snd (FrontRegister col app c w)))
        = Inr \<lparr> ID = nextID (DB w), UUID = uuid, Username = FormValue c ''username'',
               PasswordSalt = salt, PasswordHash = hash, TokenPairs = [],
               PlayerName = FormValue c ''username'', PreferredLanguage = ''en'',
               SkinModel = ''classic'', BrowserToken = Some token,
               SkinHash = None, CapeHash = None \<rparr>"
proof -
  from register_success[OF ok] obtain uuid salt hash token created db' where
    a: "uuid_New c = Inr uuid"
    and b: "rand_Read (rand_salt c) (make_bytes 16) = Inr salt"
    and d: "HashPassword col (FormValue c ''password'') salt = Inr hash"
    and e: "RandomHex 32 (rand_token c) = Inr token"
    and f: "DB_Create \<lparr> ID = 0, UUID = uuid, Username = FormValue c ''username'',
                    PasswordSalt = salt, PasswordHash = hash, TokenPairs = [],
                    PlayerName = FormValue c ''username'', PreferredLanguage = ''en'',
                    SkinModel = SkinModelClassic, BrowserToken = Some token,
                    SkinHash = None, CapeHash = None \<rparr> (DB w) = Inr (created, db')"
    and g: "snd (FrontRegister col app c w)
        = set_cookie ''browserToken'' token
            (w\<lparr> DB := db', Log := Log w @ [Created (ID created)] \<rparr>)"
    by blast
  let ?row = "\<lparr> ID = nextID (DB w), UUID = uuid, Username = FormValue c ''username'',
             PasswordSalt = salt, PasswordHash = hash, TokenPairs = [],
             PlayerName = FormValue c ''username'', PreferredLanguage = ''en'',
             SkinModel = ''classic'', BrowserToken = Some token,
             SkinHash = None, CapeHash = None \<rparr>"
  have len: "length salt = 16"
    using rand_Read_length[OF b] by (simp add: make_bytes_def)
  have cr: "created = ?row" "rows db' = rows (DB w) @ [?row]"
    using Create_result[OF f] by (simp_all add: SkinModelClassic_def)
  have noclash: "\<forall>v\<in>set (rows (DB w)). \<not> BrowserToken v = Some token"
    using Create_result[OF f] by (auto simp: conflicts_def list_ex_iff token_clash_def)
  have first: "find (\<lambda>u. BrowserToken u = Some token) (rows (DB w) @ [?row]) = Some ?row"
    by (rule find_last[OF noclash]) simp
  have r: "rows (DB (snd (FrontRegister col app c w))) = rows (DB w) @ [?row]"
    using g cr by (simp add: set_cookie_def)
  have l: "Log (snd (FrontRegister col app c w))
        = Log w @ [Created (nextID (DB w)), SetCookie ''browserToken'' token]"
    using g cr by (simp add: set_cookie_def)
  have s: "DB_First (\<lambda>u. BrowserToken u = Some token) (DB (snd (FrontRegister col app c w)))
        = Inr ?row"
    using r first by (simp add: DB_First_def)
  show ?thesis using a b len d e r l s by blast
qed

text \<open>
  Claim C4, amended. Both failure causes of a login redirect to the front end and leave
  the storage as it was, but they report different messages: an unknown username reports
  \<open>User not found!\<close> and a hash mismatch reports \<open>Incorrect password!\<close>.
\<close>

theorem C4_login_failure_messages:
  "(DB_First (\<lambda>u. Username u = FormValue c ''username'') (DB w) = Inl ErrRecordNotFound \<longrightarrow>
      FrontLogin col app c w
        = (Redirect 303 (FrontEndServer_URL app), setErrorMessage ''User not found!'' w))
   \<and> (\<forall>user h.
        DB_First (\<lambda>u. Username u = FormValue c ''username'') (DB w) = Inr user
        \<and> HashPassword col (FormValue c ''password'') (PasswordSalt user) = Inr h
        \<and> h \<noteq> PasswordHash user \<longrightarrow>
      FrontLogin col app c w
        = (Redirect 303 (FrontEndServer_URL app), setErrorMessage ''Incorrect password!'' w))
   \<and> DB (setErrorMessage ''User not found!'' w) = DB w
   \<and> DB (setErrorMessage ''Incorrect password!'' w) = DB w"
  by (simp add: FrontLogin_def setErrorMessage_def set_cookie_def)

section \<open>Update and deletion\<close>

lemma register_create_failure:
  assumes "FormValue c ''username'' \<noteq> ''''" "FormValue c ''password'' \<noteq> ''''"
    and "uuid_New c = Inr uuid"
    and "rand_Read (rand_salt c) (make_bytes 16) = Inr salt"
    and "HashPassword col (FormValue c ''password'') salt = Inr hash"
    and "RandomHex 32 (rand_token c) = Inr token"
    and "DB_Create \<lparr> ID = 0, UUID = uuid, Username = FormValue c ''username'',
                    PasswordSalt = salt, PasswordHash = hash, TokenPairs = [],
                    PlayerName = FormValue c ''username'', PreferredLanguage = ''en'',
                    SkinModel = SkinModelClassic, BrowserToken = Some token,
                    SkinHash = None, CapeHash = None \<rparr> (DB w) = Inl e"
  shows "FrontRegister col app c w = (ReturnErr e, w)"
  using assms by (simp add: FrontRegister_def Let_def IsErrorUniqueFailed_def)

lemma update_password_DB:
  "update_password col c user w = (r, w') \<Longrightarrow> DB w' = DB w"
  by (auto simp: update_password_def Let_def setErrorMessage_def set_cookie_def
           split: if_splits sum.splits)

lemma store_blob_DB: "DB (store_blob h img w) = DB w"
  by (simp add: store_blob_def split: option.splits)

lemma update_skin_DB:
  "update_skin col app c user w = (r, w') \<Longrightarrow> DB w' = DB w"
  by (auto simp: update_skin_def Let_def setErrorMessage_def set_cookie_def SetSkin_def
                 store_blob_DB
           split: if_splits sum.splits option.splits)

lemma update_cape_DB:
  "update_cape col app c user w = (r, w') \<Longrightarrow> DB w' = DB w"
  by (auto simp: update_cape_def Let_def setErrorMessage_def set_cookie_def SetCape_def
                 store_blob_DB
           split: if_splits sum.splits option.splits)

lemma authenticated:
  assumes "Cookie c ''browserToken'' = Some t" "t \<noteq> ''''"
    and "DB_First (\<lambda>u. BrowserToken u = Some t) (DB w) = Inr user"
  shows "withBrowserAuthentication app f c w = f c user w"
  using assms by (simp add: withBrowserAuthentication_def)

lemma invalid_password_is_saved:
  assumes session: "Cookie c ''browserToken'' = Some t" "t \<noteq> ''''"
    and resolves: "DB_First (\<lambda>u. BrowserToken u = Some t) (DB w) = Inr user"
    and name: "IsValidPlayerName col (FormValue c ''playerName'')"
    and lang: "IsValidPreferredLanguage col (FormValue c ''preferredLanguage'')"
    and given: "FormValue c ''password'' \<noteq> ''''"
    and invalid: "\<not> IsValidPassword col (FormValue c ''password'')"
    and salt: "rand_Read (rand_salt c) (make_bytes 16) = Inr salt"
    and hash: "HashPassword col (FormValue c ''password'') salt = Inr hash"
    and model: "IsValidSkinModel col (FormValue c ''skinModel'')"
    and noskin: "FormFile c ''skinFile'' = None" "FormValue c ''skinUrl'' = ''''"
    and nocape: "FormFile c ''capeFile'' = None" "FormValue c ''capeUrl'' = ''''"
    and save: "DB_Save (user\<lparr> PlayerName := FormValue c ''playerName'',
                               PreferredLanguage := FormValue c ''preferredLanguage'',
                               PasswordSalt := salt, PasswordHash := hash,
                               SkinModel := FormValue c ''skinModel'' \<rparr>) (DB w) = Inr db'"
  shows "FrontUpdate col app c w =
     (Redirect 303 (FrontEndServer_URL app),
      w\<lparr> DB := db',
         Log := Log w @ [SetCookie ''errorMessage'' ''Invalid password.'', Saved (ID user)] \<rparr>)"
proof -
  let ?u0 = "user\<lparr> PlayerName := FormValue c ''playerName'',
                    PreferredLanguage := FormValue c ''preferredLanguage'' \<rparr>"
  let ?w1 = "setErrorMessage ''Invalid password.'' w"
  let ?u1 = "?u0\<lparr> PasswordSalt := salt, PasswordHash := hash \<rparr>"
  let ?u2 = "?u1\<lparr> SkinModel := FormValue c ''skinModel'' \<rparr>"
  have pw: "update_password col c ?u0 w = (Inr ?u1, ?w1)"
    using given invalid salt hash by (simp add: update_password_def Let_def)
  have sk: "update_skin col app c ?u2 ?w1 = (Inr ?u2, ?w1)"
    using noskin by (simp add: update_skin_def)
  have cp: "update_cape col app c ?u2 ?w1 = (Inr ?u2, ?w1)"
    using nocape by (simp add: update_cape_def)
  have sv: "update_save app ?u2 ?w1 =
     (Redirect 303 (FrontEndServer_URL app),
      ?w1\<lparr> DB := db', Log := Log ?w1 @ [Saved (ID user)] \<rparr>)"
    using save by (simp add: update_save_def setErrorMessage_def set_cookie_def)
  have "update_body col app c user w =
     (Redirect 303 (FrontEndServer_URL app),
      ?w1\<lparr> DB := db', Log := Log ?w1 @ [Saved (ID user)] \<rparr>)"
    using name lang model pw sk cp sv by (simp add: update_body_def Let_def)
  then show ?thesis
    using authenticated[OF session resolves]
    by (simp add: FrontUpdate_def setErrorMessage_def set_cookie_def)
qed

lemma update_rejects_invalid_field:
  assumes session: "Cookie c ''browserToken'' = Some t" "t \<noteq> ''''"
    and resolves: "DB_First (\<lambda>u. BrowserToken u = Some t) (DB w) = Inr user"
    and bad: "\<not> IsValidPlayerName col (FormValue c ''playerName'')
            \<or> \<not> IsValidPreferredLanguage col (FormValue c ''preferredLanguage'')"
  shows "fst (FrontUpdate col app c w) = Redirect 303 (FrontEndServer_URL app)
       \<and> DB (snd (FrontUpdate col app c w)) = DB w"
  using bad authenticated[OF session resolves, of app "update_body col app"]
  by (auto simp: FrontUpdate_def update_body_def Let_def setErrorMessage_def set_cookie_def)







text \<open>
  Claim C10. In the update flow, when the request reaches the skin step with no uploaded
  skin file and a skin URL, the download and the validation succeed and \<open>SetSkin\<close>
  fails, the handler returns nil without writing a response and the storage is unchanged.
  The same holds at the cape step for a cape URL when \<open>SetCape\<close> fails.
\<close>

theorem C10_store_failure_returns_nil:
  assumes session: "Cookie c ''browserToken'' = Some t" "t \<noteq> ''''"
    and resolves: "DB_First (\<lambda>u. BrowserToken u = Some t) (DB w) = Inr user"
    and name: "IsValidPlayerName col (FormValue c ''playerName'')"
    and lang: "IsValidPreferredLanguage col (FormValue c ''preferredLanguage'')"
    and pw: "update_password col c
               (user\<lparr> PlayerName := FormValue c ''playerName'',
                       PreferredLanguage := FormValue c ''preferredLanguage'' \<rparr>) w
             = (Inr user1, w1)"
    and model: "IsValidSkinModel col (FormValue c ''skinModel'')"
  shows "(FormFile c ''skinFile'' = None \<and> FormValue c ''skinUrl'' \<noteq> ''''
          \<and> http_Get c (FormValue c ''skinUrl'') = Inr body
          \<and> ValidateSkin col (Config app) body = Inr valid
          \<and> SetSkin_error c = Some e \<longrightarrow>
            fst (FrontUpdate col app c w) = ReturnNil
          \<and> DB (snd (FrontUpdate col app c w)) = DB w)
    \<and> (update_skin col app c (user1\<lparr> SkinModel := FormValue c ''skinModel'' \<rparr>) w1
            = (Inr user2, w2)
          \<and> FormFile c ''capeFile'' = None \<and> FormValue c ''capeUrl'' \<noteq> ''''
          \<and> http_Get c (FormValue c ''capeUrl'') = Inr body
          \<and> ValidateCape col (Config app) body = Inr valid
          \<and> SetCape_error c = Some e \<longrightarrow>
            fst (FrontUpdate col app c w) = ReturnNil
          \<and> DB (snd (FrontUpdate col app c w)) = DB w)"
proof -
  have run: "FrontUpdate col app c w = update_body col app c user w"
    using authenticated[OF session resolves] by (simp add: FrontUpdate_def)
  have d1: "DB w1 = DB w" by (rule update_password_DB[OF pw])
  have skin: "fst (update_body col app c user w) = ReturnNil
            \<and> DB (snd (update_body col app c user w)) = DB w"
    if "FormFile c ''skinFile'' = None" "FormValue c ''skinUrl'' \<noteq> ''''"
      "http_Get c (FormValue c ''skinUrl'') = Inr body"
      "ValidateSkin col (Config app) body = Inr valid" "SetSkin_error c = Some e"
  proof -
    have "update_skin col app c (user1\<lparr> SkinModel := FormValue c ''skinModel'' \<rparr>) w1
            = (Inl ReturnNil, w1)"
      using that by (simp add: update_skin_def SetSkin_def)
    then show ?thesis
      using name lang pw model d1 by (simp add: update_body_def Let_def)
  qed
  have cape: "fst (update_body col app c user w) = ReturnNil
            \<and> DB (snd (update_body col app c user w)) = DB w"
    if sk: "update_skin col app c (user1\<lparr> SkinModel := FormValue c ''skinModel'' \<rparr>) w1
            = (Inr user2, w2)"
      and "FormFile c ''capeFile'' = None" "FormValue c ''capeUrl'' \<noteq> ''''"
      "http_Get c (FormValue c ''capeUrl'') = Inr body"
      "ValidateCape col (Config app) body = Inr valid" "SetCape_error c = Some e"
  proof -
    have d2: "DB w2 = DB w1" by (rule update_skin_DB[OF sk])
    have "update_cape col app c user2 w2 = (Inl ReturnNil, w2)"
      using that(2-6) by (simp add: update_cape_def SetCape_def)
    then show ?thesis
      using name lang pw model sk d1 d2 by (simp add: update_body_def Let_def)
  qed
  show ?thesis unfolding run using skin cape by blast
qed

section \<open>The storage keeps its constraints\<close>

lemma no_conflict:
  "\<not> conflicts u xs \<Longrightarrow> v \<in> set xs \<Longrightarrow>
     Username v \<noteq> Username u \<and> PlayerName v \<noteq> PlayerName u \<and> \<not> token_clash u v"
  by (auto simp: conflicts_def list_ex_iff)

lemma no_conflict_sets:
  assumes nc: "\<not> conflicts u xs"
  shows "Username u \<notin> Username ` set xs"
    and "PlayerName u \<notin> PlayerName ` set xs"
    and "BrowserToken u = Some t \<Longrightarrow> Some t \<notin> BrowserToken ` set xs"
proof -
  show "Username u \<notin> Username ` set xs"
  proof
    assume "Username u \<in> Username ` set xs"
    then obtain v where "Username u = Username v" "v \<in> set xs" by (rule imageE)
    then show False using no_conflict[OF nc, of v] by simp
  qed
  show "PlayerName u \<notin> PlayerName ` set xs"
  proof
    assume "PlayerName u \<in> PlayerName ` set xs"
    then obtain v where "PlayerName u = PlayerName v" "v \<in> set xs" by (rule imageE)
    then show False using no_conflict[OF nc, of v] by simp
  qed
  show "Some t \<notin> BrowserToken ` set xs" if tok: "BrowserToken u = Some t"
  proof
    assume "Some t \<in> BrowserToken ` set xs"
    then obtain v where v: "Some t = BrowserToken v" "v \<in> set xs" by (rule imageE)
    have "token_clash u v" using tok v(1)[symmetric] by (simp add: token_clash_def)
    then show False using no_conflict[OF nc v(2)] by simp
  qed
qed

lemma token_clash_iff:
  "token_clash u v \<longleftrightarrow> BrowserToken u \<noteq> None \<and> BrowserToken v = BrowserToken u"
  by (cases "BrowserToken u") (auto simp: token_clash_def)

lemma replace_untouched:
  "\<forall>v\<in>set xs. ID v \<noteq> ID u \<Longrightarrow> map (\<lambda>v. if ID v = ID u then u else v) xs = xs"
  by (induction xs) simp_all

lemma replace_distinct:
  assumes ids: "distinct (map ID xs)"
    and old: "distinct (map f (filter P xs))"
    and new: "\<forall>v\<in>set xs. ID v \<noteq> ID u \<and> P v \<and> P u \<longrightarrow> f v \<noteq> f u"
  shows "distinct (map f (filter P (map (\<lambda>v. if ID v = ID u then u else v) xs)))"
  using assms
proof (induction xs)
  case Nil
  then show ?case by simp
next
  case (Cons a xs)
  let ?g = "\<lambda>v. if ID v = ID u then u else v"
  have ids': "distinct (map ID xs)" and fresh: "ID a \<notin> ID ` set xs"
    using Cons.prems(1) by simp_all
  have old': "distinct (map f (filter P xs))"
    using Cons.prems(2) by (cases "P a") simp_all
  have new': "\<forall>v\<in>set xs. ID v \<noteq> ID u \<and> P v \<and> P u \<longrightarrow> f v \<noteq> f u"
    using Cons.prems(3) by simp
  have IH: "distinct (map f (filter P (map ?g xs)))"
    by (rule Cons.IH[OF ids' old' new'])
  show ?case
  proof (cases "ID a = ID u")
    case True
    then have "\<forall>v\<in>set xs. ID v \<noteq> ID u" using fresh by (metis imageI)
    then have same: "map ?g xs = xs" by (rule replace_untouched)
    have "f u \<notin> f ` set (filter P xs)" if "P u"
    proof
      assume "f u \<in> f ` set (filter P xs)"
      then obtain v where v0: "f u = f v" "v \<in> set (filter P xs)" by (rule imageE)
      then have v: "v \<in> set xs" "P v" "f v = f u" by simp_all
      have "ID v \<noteq> ID u" using v(1) fresh True by (metis imageI)
      then show False using new' v that by blast
    qed
    then show ?thesis using True same old' by simp
  next
    case False
    have "f a \<notin> f ` set (filter P (map ?g xs))" if pa: "P a"
    proof
      assume "f a \<in> f ` set (filter P (map ?g xs))"
      then obtain y where y0: "f a = f y" "y \<in> set (filter P (map ?g xs))"
        by (rule imageE)
      then have y: "y \<in> set (map ?g xs)" "P y" "f y = f a"
        unfolding set_filter by simp_all
      from y(1) obtain v where v: "v \<in> set xs" "y = ?g v" unfolding set_map by blast
      show False
      proof (cases "ID v = ID u")
        case True
        then have "y = u" using v(2) by simp
        then have "P u" "f a = f u" using y by simp_all
        then show False using Cons.prems(3) False pa by simp
      next
        case False
        then have "y = v" using v(2) by simp
        then have "v \<in> set (filter P xs)" "f v = f a" using v(1) y by simp_all
        then show False using Cons.prems(2) pa by (auto simp: image_iff)
      qed
    qed
    then show ?thesis using False IH by simp
  qed
qed

lemma replace_ids:
  "u0 \<in> set xs \<Longrightarrow> ID u0 = ID u \<Longrightarrow>
     ID ` set (map (\<lambda>v. if ID v = ID u then u else v) xs) = ID ` set xs"
  by (induction xs) auto

lemma DB_Create_keeps_wf:
  assumes wf: "db_wf db" and ok: "DB_Create u db = Inr (u', db')"
  shows "db_wf db'"
proof -
  have r: "u' = u\<lparr>ID := nextID db\<rparr>" "rows db' = rows db @ [u']"
    "nextID db' = Suc (nextID db)" and nc: "\<not> conflicts u (rows db)"
    using Create_result[OF ok] by simp_all
  have below: "\<forall>v\<in>set (rows db). ID v < nextID db"
    using wf by (simp add: db_wf_def ids_below_def list_all_iff)
  have d: "distinct (map ID (rows db))" "distinct (map Username (rows db))"
    "distinct (map PlayerName (rows db))" "distinct (map BrowserToken (logged_in db))"
    using wf by (simp_all add: db_wf_def db_unique_def)
  note ns = no_conflict_sets[OF nc]
  have "nextID db \<notin> ID ` set (rows db)" using below by auto
  then have i: "distinct (map ID (rows db'))"
    using d(1) r by simp
  have n: "distinct (map Username (rows db'))"
    using d(2) ns r by simp
  have p: "distinct (map PlayerName (rows db'))"
    using d(3) ns r by simp
  have t: "distinct (map BrowserToken (logged_in db'))"
  proof (cases "BrowserToken u")
    case None
    then show ?thesis using d(4) r by (simp add: logged_in_def)
  next
    case (Some tok)
    then have "Some tok \<notin> BrowserToken ` set (rows db)" by (rule ns(3))
    then have "Some tok \<notin> BrowserToken ` set (logged_in db)"
      by (auto simp: logged_in_def)
    then show ?thesis using d(4) r Some by (simp add: logged_in_def)
  qed
  have b: "ids_below db'"
    using below r by (auto simp: ids_below_def list_all_iff less_Suc_eq)
  show ?thesis using i n p t b by (simp add: db_wf_def db_unique_def)
qed

lemma DB_Delete_keeps_wf:
  assumes wf: "db_wf db"
  shows "db_wf (DB_Delete u db)"
proof -
  have l: "logged_in (DB_Delete u db) = filter (\<lambda>v. ID v \<noteq> ID u) (logged_in db)"
    by (auto simp: logged_in_def DB_Delete_def intro: filter_cong)
  show ?thesis
    using wf unfolding db_wf_def db_unique_def l
    by (auto simp: DB_Delete_def ids_below_def list_all_iff distinct_map_filter)
qed

lemma DB_Save_keeps_wf:
  assumes wf: "db_wf db" and ok: "DB_Save u db = Inr db'"
  shows "db_wf db'"
proof -
  let ?g = "\<lambda>v. if ID v = ID u then u else v"
  have nc: "\<not> conflicts u (filter (\<lambda>v. ID v \<noteq> ID u) (rows db))"
    using ok by (auto simp: DB_Save_def split: if_splits)
  have other: "Username v \<noteq> Username u \<and> PlayerName v \<noteq> PlayerName u \<and> \<not> token_clash u v"
    if "v \<in> set (rows db)" "ID v \<noteq> ID u" for v
    using no_conflict[OF nc, of v] that by simp
  have below: "\<forall>v\<in>set (rows db). ID v < nextID db"
    using wf by (simp add: db_wf_def ids_below_def list_all_iff)
  have d: "distinct (map ID (rows db))" "distinct (map Username (rows db))"
    "distinct (map PlayerName (rows db))" "distinct (map BrowserToken (logged_in db))"
    using wf by (simp_all add: db_wf_def db_unique_def)
  show ?thesis
  proof (cases "list_ex (\<lambda>v. ID v = ID u) (rows db)")
    case True
    then obtain u0 where u0: "u0 \<in> set (rows db)" "ID u0 = ID u"
      by (auto simp: list_ex_iff)
    have r: "rows db' = map ?g (rows db)" "nextID db' = nextID db"
      using ok nc True by (auto simp: DB_Save_def)
    have i: "distinct (map ID (rows db'))"
      using replace_distinct[of "rows db" ID "\<lambda>_. True" u] d(1) r by simp
    have on: "\<forall>v\<in>set (rows db). ID v \<noteq> ID u \<and> True \<and> True \<longrightarrow> Username v \<noteq> Username u"
      and op: "\<forall>v\<in>set (rows db). ID v \<noteq> ID u \<and> True \<and> True
                 \<longrightarrow> PlayerName v \<noteq> PlayerName u"
      using other by blast+
    have n: "distinct (map Username (rows db'))"
      using replace_distinct[of "rows db" Username "\<lambda>_. True" u, OF d(1) _ on] d(2) r by simp
    have p: "distinct (map PlayerName (rows db'))"
      using replace_distinct[of "rows db" PlayerName "\<lambda>_. True" u, OF d(1) _ op] d(3) r
      by simp
    have "\<forall>v\<in>set (rows db).
            ID v \<noteq> ID u \<and> BrowserToken v \<noteq> None \<and> BrowserToken u \<noteq> None
            \<longrightarrow> BrowserToken v \<noteq> BrowserToken u"
      using other unfolding token_clash_iff by blast
    then have t: "distinct (map BrowserToken (logged_in db'))"
      using replace_distinct[of "rows db" BrowserToken "\<lambda>v. BrowserToken v \<noteq> None" u]
            d(1,4) r
      by (simp add: logged_in_def)
    have "ID ` set (rows db') = ID ` set (rows db)"
      unfolding r by (rule replace_ids[OF u0])
    then have b: "ids_below db'"
      using below r by (auto simp: ids_below_def list_all_iff)
    show ?thesis using i n p t b by (simp add: db_wf_def db_unique_def)
  next
    case False
    then have none: "\<forall>v\<in>set (rows db). ID v \<noteq> ID u" by (auto simp: list_ex_iff)
    then have all: "filter (\<lambda>v. ID v \<noteq> ID u) (rows db) = rows db" by simp
    have r: "rows db' = rows db @ [u]" "nextID db' = max (nextID db) (Suc (ID u))"
      using ok nc False by (auto simp: DB_Save_def)
    have "\<not> conflicts u (rows db)" using nc all by simp
    note ns = no_conflict_sets[OF this]
    have "ID u \<notin> ID ` set (rows db)" using none by (metis imageE)
    then have i: "distinct (map ID (rows db'))" using d(1) r by simp
    have n: "distinct (map Username (rows db'))" using d(2) ns r by simp
    have p: "distinct (map PlayerName (rows db'))" using d(3) ns r by simp
    have t: "distinct (map BrowserToken (logged_in db'))"
    proof (cases "BrowserToken u")
      case None
      then show ?thesis using d(4) r by (simp add: logged_in_def)
    next
      case (Some tok)
      then have "Some tok \<notin> BrowserToken ` set (rows db)" by (rule ns(3))
      then have "Some tok \<notin> BrowserToken ` set (logged_in db)"
        by (auto simp: logged_in_def)
      then show ?thesis using d(4) r Some by (simp add: logged_in_def)
    qed
    have b: "ids_below db'"
      using below r by (auto simp: ids_below_def list_all_iff less_max_iff_disj)
    show ?thesis using i n p t b by (simp add: db_wf_def db_unique_def)
  qed
qed

section \<open>The handlers keep the storage well-formed\<close>

lemma empty_world_wf: "db_wf (DB empty_world)"
  by (simp add: empty_world_def db_wf_def db_unique_def logged_in_def ids_below_def)

lemma save_unchecked_keeps_wf:
  "db_wf (DB w) \<Longrightarrow> db_wf (DB (save_unchecked u w))"
  by (cases "DB_Save u (DB w)") (auto simp: save_unchecked_def dest: DB_Save_keeps_wf)

lemma authentication_keeps_wf:
  assumes f: "\<And>c user w. db_wf (DB w) \<Longrightarrow> db_wf (DB (snd (f c user w)))"
    and wf: "db_wf (DB w)"
  shows "db_wf (DB (snd (withBrowserAuthentication app f c w)))"
proof (cases "Cookie c ''browserToken''")
  case None
  then show ?thesis using wf by (simp add: withBrowserAuthentication_def)
next
  case (Some v)
  show ?thesis
  proof (cases "DB_First (\<lambda>u. BrowserToken u = Some v) (DB w)")
    case (Inl e)
    then show ?thesis
      using Some wf by (simp add: withBrowserAuthentication_def set_cookie_def)
  next
    case (Inr user)
    then show ?thesis
      using Some wf f[of w c user] by (simp add: withBrowserAuthentication_def)
  qed
qed

lemma FrontRegister_keeps_wf:
  assumes wf: "db_wf (DB w)"
  shows "db_wf (DB (snd (FrontRegister col app c w)))"
proof (cases "fst (FrontRegister col app c w) = Redirect 303 (FrontEndServer_URL app)")
  case True
  from register_success[OF True] obtain token created db' u where
    cr: "DB_Create u (DB w) = Inr (created, db')"
    and res: "snd (FrontRegister col app c w)
        = set_cookie ''browserToken'' token
            (w\<lparr> DB := db', Log := Log w @ [Created (ID created)] \<rparr>)"
    by blast
  have "db_wf db'" by (rule DB_Create_keeps_wf[OF wf cr])
  then show ?thesis using res by (simp add: set_cookie_def)
next
  case False
  then have "snd (FrontRegister col app c w) = w"
    by (auto simp: FrontRegister_def Let_def IsErrorUniqueFailed_def
             split: if_splits sum.splits prod.splits)
  then show ?thesis using wf by simp
qed

lemma FrontLogin_keeps_wf:
  assumes wf: "db_wf (DB w)"
  shows "db_wf (DB (snd (FrontLogin col app c w)))"
proof -
  have "db_wf (DB (save_unchecked u (set_cookie n v w)))" for u n v
    using save_unchecked_keeps_wf[of "set_cookie n v w" u] wf by (simp add: set_cookie_def)
  then show ?thesis
    using wf
    by (auto simp: FrontLogin_def Let_def setErrorMessage_def set_cookie_def
             split: sum.splits if_splits)
qed

lemma FrontLogout_keeps_wf:
  assumes wf: "db_wf (DB w)"
  shows "db_wf (DB (snd (FrontLogout app c w)))"
  unfolding FrontLogout_def
proof (rule authentication_keeps_wf[OF _ wf])
  fix c :: Context and user :: User and w :: world
  assume "db_wf (DB w)"
  then have "db_wf (DB (set_cookie ''browserToken'' '''' w))" by (simp add: set_cookie_def)
  then show "db_wf (DB (snd (Redirect 303 (FrontEndServer_URL app),
                 save_unchecked (user\<lparr>BrowserToken := None\<rparr>)
                   (set_cookie ''browserToken'' '''' w))))"
    by (simp add: save_unchecked_keeps_wf)
qed

lemma update_save_keeps_wf:
  "db_wf (DB w) \<Longrightarrow> db_wf (DB (snd (update_save app u w)))"
  by (cases "DB_Save u (DB w)")
     (auto simp: update_save_def setErrorMessage_def set_cookie_def dest: DB_Save_keeps_wf)

lemma update_body_keeps_wf:
  assumes wf: "db_wf (DB w)"
  shows "db_wf (DB (snd (update_body col app c user w)))"
proof -
  let ?u0 = "user\<lparr> PlayerName := FormValue c ''playerName'',
                    PreferredLanguage := FormValue c ''preferredLanguage'' \<rparr>"
  obtain r1 w1 where pw: "update_password col c ?u0 w = (r1, w1)" by fastforce
  have d1: "DB w1 = DB w" by (rule update_password_DB[OF pw])
  show ?thesis
  proof (cases r1)
    case (Inl r)
    then show ?thesis
      using pw d1 wf by (simp add: update_body_def Let_def setErrorMessage_def set_cookie_def)
  next
    case (Inr user1)
    let ?u1 = "user1\<lparr> SkinModel := FormValue c ''skinModel'' \<rparr>"
    obtain r2 w2 where sk: "update_skin col app c ?u1 w1 = (r2, w2)" by fastforce
    have d2: "DB w2 = DB w1" by (rule update_skin_DB[OF sk])
    show ?thesis
    proof (cases r2)
      case (Inl r)
      then show ?thesis
        using Inr pw sk d1 d2 wf
        by (simp add: update_body_def Let_def setErrorMessage_def set_cookie_def)
    next
      case user2: (Inr user2)
      obtain r3 w3 where cp: "update_cape col app c user2 w2 = (r3, w3)" by fastforce
      have d3: "DB w3 = DB w2" by (rule update_cape_DB[OF cp])
      have wf3: "db_wf (DB w3)" using d1 d2 d3 wf by simp
      show ?thesis
      proof (cases r3)
        case (Inl r)
        then show ?thesis
          using Inr user2 pw sk cp d1 d2 d3 wf
          by (simp add: update_body_def Let_def setErrorMessage_def set_cookie_def)
      next
        case user3: (Inr user3)
        then show ?thesis
          using Inr user2 pw sk cp d1 wf update_save_keeps_wf[OF wf3, of app user3]
          by (simp add: update_body_def Let_def setErrorMessage_def set_cookie_def)
      qed
    qed
  qed
qed

lemma FrontUpdate_keeps_wf:
  "db_wf (DB w) \<Longrightarrow> db_wf (DB (snd (FrontUpdate col app c w)))"
  unfolding FrontUpdate_def
  by (rule authentication_keeps_wf) (rule update_body_keeps_wf)

lemma delete_body_keeps_wf:
  assumes wf: "db_wf (DB w)"
  shows "db_wf (DB (snd (delete_body app c user w)))"
proof -
  have "db_wf (DB_Delete user (DB w))" by (rule DB_Delete_keeps_wf[OF wf])
  then show ?thesis
    by (auto simp: delete_body_def Let_def set_cookie_def DeleteSkin_def DeleteCape_def
                   remove_blob_def
             split: option.splits sum.splits)
qed

lemma FrontDeleteAccount_keeps_wf:
  "db_wf (DB w) \<Longrightarrow> db_wf (DB (snd (FrontDeleteAccount app c w)))"
  unfolding FrontDeleteAccount_def
  by (rule authentication_keeps_wf) (rule delete_body_keeps_wf)

section \<open>The handlers at concrete requests\<close>

lemma RandomHex_171: "RandomHex 32 (Inr (\<lambda>i. 171)) = Inr token_ab"
  by code_simp

lemma rand_salt_16:
  "rand_Read (Inr (\<lambda>i. of_nat i)) (make_bytes 16)
     = Inr [0, 1, 2, 3, 4, 5, 6, 7, 8, 9, 10, 11, 12, 13, 14, 15]"
  by code_simp

lemmas handler_defs =
  FrontRegister_def FrontLogin_def FrontUpdate_def FrontDeleteAccount_def
  withBrowserAuthentication_def update_body_def update_password_def update_skin_def
  update_cape_def update_save_def delete_body_def save_unchecked_def
  DB_First_def DB_Create_def DB_Save_def DB_Delete_def conflicts_def token_clash_def
  IsErrorUniqueFailed_def set_cookie_def setErrorMessage_def SetSkin_def SetCape_def
  DeleteSkin_def DeleteCape_def store_blob_def remove_blob_def SkinModelClassic_def Let_def

lemmas input_defs =
  toy_collab_def example_app_def closed_app_def german_app_def form_def request_def
  alice_def empty_world_def alice_world_def register_bob_def register_alice_again_def
  login_alice_def login_alice_wrong_def login_bob_wrong_def update_short_password_def
  update_skin_from_url_def update_cape_from_url_def delete_alice_def
  delete_alice_skin_fails_def delete_alice_cape_fails_def caped_alice_def caped_world_def
  bob_def alice_bob_world_def

text \<open>
  Claim C1, as stated, fails: with new-player registration switched off in the
  configuration, a registration with a non-blank username and password succeeds and the
  account is created.
\<close>

theorem C1_registration_disabled_counterexample:
  "rn_Allow (RegistrationNewPlayer (Config closed_app)) = False
   \<and> fst (FrontRegister toy_collab closed_app register_bob empty_world)
       = Redirect 303 ''https://drasl.example.com''
   \<and> map Username (rows (DB (snd (FrontRegister toy_collab closed_app register_bob
                                     empty_world))))
       = [''bob'']"
  by (simp add: handler_defs input_defs RandomHex_171 rand_salt_16 DefaultConfig_def)

text \<open>Claim C1, amended, at a successful registration and a configuration that forbids
  it.\<close>

theorem C1_register_ignores_policy_witness:
  "FrontRegister toy_collab (example_app\<lparr> Config := Config closed_app \<rparr>) register_bob
     empty_world
     = FrontRegister toy_collab example_app register_bob empty_world
   \<and> fst (FrontRegister toy_collab example_app register_bob empty_world)
       = Redirect 303 (FrontEndServer_URL example_app)
   \<and> FormValue register_bob ''username'' \<noteq> ''''
   \<and> FormValue register_bob ''password'' \<noteq> ''''"
proof -
  have ok: "fst (FrontRegister toy_collab example_app register_bob empty_world)
       = Redirect 303 (FrontEndServer_URL example_app)"
    by (simp add: handler_defs input_defs RandomHex_171 rand_salt_16)
  show ?thesis
    using C1_register_ignores_policy
            [where col = toy_collab and app = example_app and cfg = "Config closed_app"
               and c = register_bob and w = empty_world] ok
    by blast
qed

text \<open>
  Claim C2 against the code. The update below changes nothing but the password, and the
  password \<open>short\<close> fails \<open>IsValidPassword\<close>. The handler sets the message
  \<open>Invalid password.\<close> and goes on: it saves the account with a new salt and the hash of
  the rejected password, and answers with the redirect of a successful update.
\<close>

theorem C2_invalid_password_is_persisted:
  "FormValue update_short_password ''password'' = ''short''
   \<and> IsValidPassword toy_collab ''short'' = False
   \<and> fst (FrontUpdate toy_collab example_app update_short_password alice_world)
       = Redirect 303 ''https://drasl.example.com''
   \<and> Log (snd (FrontUpdate toy_collab example_app update_short_password alice_world))
       = [SetCookie ''errorMessage'' ''Invalid password.'', Saved 1]
   \<and> map PasswordSalt (rows (DB alice_world)) = [[7, 7]]
   \<and> map PasswordSalt
        (rows (DB (snd (FrontUpdate toy_collab example_app update_short_password
                          alice_world))))
       = [[0, 1, 2, 3, 4, 5, 6, 7, 8, 9, 10, 11, 12, 13, 14, 15]]
   \<and> map PasswordHash (rows (DB alice_world)) = [[7, 7, 115, 101, 99, 114, 101, 116, 49]]
   \<and> map PasswordHash
        (rows (DB (snd (FrontUpdate toy_collab example_app update_short_password
                          alice_world))))
       = [[0, 1, 2, 3, 4, 5, 6, 7, 8, 9, 10, 11, 12, 13, 14, 15, 115, 104, 111, 114, 116]]"
  by (simp add: handler_defs input_defs RandomHex_171 rand_salt_16 token_cd_def)

text \<open>
  Claim C3 against the code. Registering the username of an existing account returns the
  error of the storage as it is, and sets no message: the \<open>That username is taken.\<close>
  outcome is not produced.
\<close>

theorem C3_username_collision_is_unclassified:
  "map Username (rows (DB alice_world)) = [''alice'']
   \<and> FormValue register_alice_again ''username'' = ''alice''
   \<and> FrontRegister toy_collab example_app register_alice_again alice_world
       = (ReturnErr UniqueConstraintFailed, alice_world)"
  by (simp add: handler_defs input_defs RandomHex_171 rand_salt_16)

text \<open>
  Claim C4, as stated, fails: a login with an unknown username and a login with a wrong
  password produce different outputs, which tell which of the two was wrong.
\<close>

theorem C4_login_errors_differ_counterexample:
  "FrontLogin toy_collab example_app login_bob_wrong alice_world
     = (Redirect 303 ''https://drasl.example.com'',
        alice_world\<lparr> Log := [SetCookie ''errorMessage'' ''User not found!''] \<rparr>)
   \<and> FrontLogin toy_collab example_app login_alice_wrong alice_world
     = (Redirect 303 ''https://drasl.example.com'',
        alice_world\<lparr> Log := [SetCookie ''errorMessage'' ''Incorrect password!''] \<rparr>)
   \<and> FrontLogin toy_collab example_app login_bob_wrong alice_world
     \<noteq> FrontLogin toy_collab example_app login_alice_wrong alice_world"
  by (simp add: handler_defs input_defs RandomHex_171 rand_salt_16)

text \<open>Claim C4, amended, at a login of an unknown user and at a login with a wrong
  password.\<close>

theorem C4_login_failure_messages_witness:
  "DB_First (\<lambda>u. Username u = FormValue login_bob_wrong ''username'') (DB alice_world)
     = Inl ErrRecordNotFound
   \<and> FrontLogin toy_collab example_app login_bob_wrong alice_world
     = (Redirect 303 (FrontEndServer_URL example_app),
        setErrorMessage ''User not found!'' alice_world)
   \<and> DB_First (\<lambda>u. Username u = FormValue login_alice_wrong ''username'') (DB alice_world)
     = Inr alice
   \<and> HashPassword toy_collab (FormValue login_alice_wrong ''password'') (PasswordSalt alice)
     = Inr [7, 7, 119, 114, 111, 110, 103]
   \<and> [7, 7, 119, 114, 111, 110, 103] \<noteq> PasswordHash alice
   \<and> FrontLogin toy_collab example_app login_alice_wrong alice_world
     = (Redirect 303 (FrontEndServer_URL example_app),
        setErrorMessage ''Incorrect password!'' alice_world)"
proof -
  have a: "DB_First (\<lambda>u. Username u = FormValue login_bob_wrong ''username'') (DB alice_world)
     = Inl ErrRecordNotFound"
    by (simp add: DB_First_def input_defs)
  have b: "DB_First (\<lambda>u. Username u = FormValue login_alice_wrong ''username'')
             (DB alice_world) = Inr alice"
    by (simp add: DB_First_def input_defs)
  have h: "HashPassword toy_collab (FormValue login_alice_wrong ''password'')
             (PasswordSalt alice) = Inr [7, 7, 119, 114, 111, 110, 103]"
    by (simp add: input_defs)
  have n: "[7, 7, 119, 114, 111, 110, 103] \<noteq> PasswordHash alice"
    by (simp add: alice_def)
  note t1 = C4_login_failure_messages
              [where c = login_bob_wrong and w = alice_world and col = toy_collab
                 and app = example_app, THEN conjunct1]
  note t2 = C4_login_failure_messages
              [where c = login_alice_wrong and w = alice_world and col = toy_collab
                 and app = example_app, THEN conjunct2, THEN conjunct1]
  have r1: "FrontLogin toy_collab example_app login_bob_wrong alice_world
     = (Redirect 303 (FrontEndServer_URL example_app),
        setErrorMessage ''User not found!'' alice_world)"
    using t1 a by blast
  have r2: "FrontLogin toy_collab example_app login_alice_wrong alice_world
     = (Redirect 303 (FrontEndServer_URL example_app),
        setErrorMessage ''Incorrect password!'' alice_world)"
    using t2 b h n by blast
  show ?thesis
    by (intro conjI) (rule a, rule r1, rule b, rule h, rule n, rule r2)
qed



text \<open>
  Claim C7, as stated, fails: with \<open>de\<close> as the configured default language, the account
  created by a successful registration has the preferred language \<open>en\<close>.
\<close>

theorem C7_default_language_counterexample:
  "DefaultPreferredLanguage (Config german_app) = ''de''
   \<and> fst (FrontRegister toy_collab german_app register_bob empty_world)
       = Redirect 303 ''https://drasl.example.com''
   \<and> map PreferredLanguage
        (rows (DB (snd (FrontRegister toy_collab german_app register_bob empty_world))))
       = [''en'']"
  by (simp add: handler_defs input_defs RandomHex_171 rand_salt_16 DefaultConfig_def)

text \<open>Claim C7, amended, at the registration of bob beside the account of alice.\<close>

theorem C7_registered_account_witness:
  "fst (FrontRegister toy_collab example_app register_bob alice_world)
     = Redirect 303 (FrontEndServer_URL example_app)
   \<and> (\<exists>uuid salt hash token.
        length salt = 16
      \<and> HashPassword toy_collab (FormValue register_bob ''password'') salt = Inr hash
      \<and> rows (DB (snd (FrontRegister toy_collab example_app register_bob alice_world)))
          = rows (DB alice_world) @
            [\<lparr> ID = nextID (DB alice_world), UUID = uuid,
               Username = FormValue register_bob ''username'',
               PasswordSalt = salt, PasswordHash = hash, TokenPairs = [],
               PlayerName = FormValue register_bob ''username'', PreferredLanguage = ''en'',
               SkinModel = ''classic'', BrowserToken = Some token,
               SkinHash = None, CapeHash = None \<rparr>])"
proof -
  have ok: "fst (FrontRegister toy_collab example_app register_bob alice_world)
     = Redirect 303 (FrontEndServer_URL example_app)"
    by (simp add: handler_defs input_defs RandomHex_171 rand_salt_16 token_cd_def
                  token_ab_def)
  show ?thesis using C7_registered_account[OF ok] ok by blast
qed



text \<open>Claim C10 at an update with a skin URL and at an update with a cape URL, each with
  a failing store.\<close>

theorem C10_store_failure_returns_nil_witness:
  "SetSkin_error update_skin_from_url = Some (Failure ''no space left on device'')
   \<and> fst (FrontUpdate toy_collab example_app update_skin_from_url alice_world) = ReturnNil
   \<and> DB (snd (FrontUpdate toy_collab example_app update_skin_from_url alice_world))
       = DB alice_world
   \<and> SetCape_error update_cape_from_url = Some (Failure ''no space left on device'')
   \<and> fst (FrontUpdate toy_collab example_app update_cape_from_url alice_world) = ReturnNil
   \<and> DB (snd (FrontUpdate toy_collab example_app update_cape_from_url alice_world))
       = DB alice_world"
proof -
  let ?u1 = "alice\<lparr> PlayerName := ''alice'', PreferredLanguage := ''en'' \<rparr>"
  let ?e = "Failure ''no space left on device''"
  have res: "DB_First (\<lambda>u. BrowserToken u = Some token_cd) (DB alice_world) = Inr alice"
    by (simp add: DB_First_def alice_world_def alice_def)
  have s2: "token_cd \<noteq> ''''" by (simp add: token_cd_def)

  have k1: "Cookie update_skin_from_url ''browserToken'' = Some token_cd"
    by (simp add: update_skin_from_url_def request_def)
  have kn: "IsValidPlayerName toy_collab (FormValue update_skin_from_url ''playerName'')"
    by (simp add: input_defs)
  have kl: "IsValidPreferredLanguage toy_collab
              (FormValue update_skin_from_url ''preferredLanguage'')"
    by (simp add: input_defs)
  have kp: "update_password toy_collab update_skin_from_url
              (alice\<lparr> PlayerName := FormValue update_skin_from_url ''playerName'',
                      PreferredLanguage := FormValue update_skin_from_url
                                             ''preferredLanguage'' \<rparr>) alice_world
            = (Inr ?u1, alice_world)"
    by (simp add: update_password_def update_skin_from_url_def request_def form_def)
  have km: "IsValidSkinModel toy_collab (FormValue update_skin_from_url ''skinModel'')"
    by (simp add: input_defs)
  have kh: "FormFile update_skin_from_url ''skinFile'' = None
          \<and> FormValue update_skin_from_url ''skinUrl'' \<noteq> ''''
          \<and> http_Get update_skin_from_url (FormValue update_skin_from_url ''skinUrl'')
              = Inr [1, 2, 3]
          \<and> ValidateSkin toy_collab (Config example_app) [1, 2, 3] = Inr [1, 2, 3]
          \<and> SetSkin_error update_skin_from_url = Some ?e"
    by (simp add: input_defs DefaultConfig_def)
  note rs = C10_store_failure_returns_nil
              [where app = example_app and body = "[1, 2, 3]" and valid = "[1, 2, 3]"
                 and e = ?e, OF k1 s2 res kn kl kp km, THEN conjunct1]
  have skin: "fst (FrontUpdate toy_collab example_app update_skin_from_url alice_world)
                = ReturnNil
            \<and> DB (snd (FrontUpdate toy_collab example_app update_skin_from_url alice_world))
                = DB alice_world"
    using rs kh by blast

  have c1: "Cookie update_cape_from_url ''browserToken'' = Some token_cd"
    by (simp add: update_cape_from_url_def request_def)
  have cn: "IsValidPlayerName toy_collab (FormValue update_cape_from_url ''playerName'')"
    by (simp add: input_defs)
  have cl: "IsValidPreferredLanguage toy_collab
              (FormValue update_cape_from_url ''preferredLanguage'')"
    by (simp add: input_defs)
  have cp: "update_password toy_collab update_cape_from_url
              (alice\<lparr> PlayerName := FormValue update_cape_from_url ''playerName'',
                      PreferredLanguage := FormValue update_cape_from_url
                                             ''preferredLanguage'' \<rparr>) alice_world
            = (Inr ?u1, alice_world)"
    by (simp add: update_password_def update_cape_from_url_def request_def form_def)
  have cm: "IsValidSkinModel toy_collab (FormValue update_cape_from_url ''skinModel'')"
    by (simp add: input_defs)
  have ch: "update_skin toy_collab example_app update_cape_from_url
              (?u1\<lparr> SkinModel := FormValue update_cape_from_url ''skinModel'' \<rparr>) alice_world
              = (Inr (?u1\<lparr> SkinModel := ''classic'' \<rparr>), alice_world)
          \<and> FormFile update_cape_from_url ''capeFile'' = None
          \<and> FormValue update_cape_from_url ''capeUrl'' \<noteq> ''''
          \<and> http_Get update_cape_from_url (FormValue update_cape_from_url ''capeUrl'')
              = Inr [1, 2, 3]
          \<and> ValidateCape toy_collab (Config example_app) [1, 2, 3] = Inr [1, 2, 3]
          \<and> SetCape_error update_cape_from_url = Some ?e"
    by (simp add: update_skin_def input_defs DefaultConfig_def)
  note rc = C10_store_failure_returns_nil
              [where app = example_app and body = "[1, 2, 3]" and valid = "[1, 2, 3]"
                 and e = ?e and ?user2.0 = "?u1\<lparr> SkinModel := ''classic'' \<rparr>"
                 and ?w2.0 = alice_world,
               OF c1 s2 res cn cl cp cm, THEN conjunct2]
  have cape: "fst (FrontUpdate toy_collab example_app update_cape_from_url alice_world)
                = ReturnNil
            \<and> DB (snd (FrontUpdate toy_collab example_app update_cape_from_url alice_world))
                = DB alice_world"
    using rc ch by blast
  show ?thesis using skin cape kh ch by blast
qed

end
